theory Spec2Isabelle
  imports Main
begin

section \<open>Python values and exceptions\<close>

text \<open>
  The server works on parsed JSON. A value of the model is what \<open>response.json()\<close> hands
  to the code: \<open>None\<close>, a bool, an int, a str, a list or a dict (an association list in
  insertion order, its keys distinct as in a Python dict). JSON numbers with a fraction
  are outside the model. A \<open>char\<close> stands for one character of a Python str; the two
  non-ASCII characters of the source's literals are written as their UTF-8 bytes.
\<close>

datatype json =
    JNull
  | JBool bool
  | JInt int
  | JStr string
  | JList "json list"
  | JObj "(string \<times> json) list"

text \<open>
  The exceptions the code can meet, by the classes \<open>_handle_api_error\<close> tells apart:
  \<open>httpx.HTTPStatusError\<close> (status code, response text), \<open>httpx.TimeoutException\<close>
  (class name, message), \<open>ValueError\<close> and its subclasses (message), any other subclass of
  \<open>Exception\<close> (class name, message), and the exceptions that derive from
  \<open>BaseException\<close> only, which \<open>except Exception\<close> does not catch.
\<close>

datatype exn =
    HTTPStatusError int string
  | TimeoutException string string
  | ValueError string
  | OtherException string string
  | BaseExceptionOnly string string

definition exn_bind :: "exn + 'a \<Rightarrow> ('a \<Rightarrow> exn + 'b) \<Rightarrow> exn + 'b" where
  "exn_bind m f = (case m of Inl e \<Rightarrow> Inl e | Inr x \<Rightarrow> f x)"

fun exn_map :: "('a \<Rightarrow> exn + 'b) \<Rightarrow> 'a list \<Rightarrow> exn + 'b list" where
  "exn_map f [] = Inr []"
| "exn_map f (x # xs) =
     (case f x of Inl e \<Rightarrow> Inl e
      | Inr y \<Rightarrow> (case exn_map f xs of Inl e \<Rightarrow> Inl e | Inr ys \<Rightarrow> Inr (y # ys)))"

definition sq :: string where "sq = [CHR 0x27]"
definition dq :: string where "dq = [CHR 0x22]"
definition nl :: string where "nl = [CHR 0x0A]"
definition em_dash :: string where "em_dash = [CHR 0xE2, CHR 0x80, CHR 0x94]"
definition bullet :: string where "bullet = [CHR 0xE2, CHR 0x80, CHR 0xA2]"

fun str_join :: "string \<Rightarrow> string list \<Rightarrow> string" where
  "str_join sep [] = []"
| "str_join sep [x] = x"
| "str_join sep (x # y # ys) = x @ sep @ str_join sep (y # ys)"

subsection \<open>\<open>str()\<close> and \<open>repr()\<close>\<close>

definition digit_char :: "nat \<Rightarrow> char" where
  "digit_char n = ''0123456789abcdef'' ! n"

text \<open>The decimal digits of a non-negative int.\<close>

function str_digits :: "int \<Rightarrow> string" where
  "str_digits n =
     (if n < 10 then [digit_char (nat n)]
      else str_digits (n div 10) @ [digit_char (nat (n mod 10))])"
  by pat_completeness auto
termination
  by (relation "measure nat") auto

declare str_digits.simps [simp del]

definition str_int :: "int \<Rightarrow> string" where
  "str_int i = (if i < 0 then CHR ''-'' # str_digits (- i) else str_digits i)"

definition str_nat :: "nat \<Rightarrow> string" where
  "str_nat n = str_digits (int n)"

definition repr_char :: "char \<Rightarrow> char \<Rightarrow> string" where
  "repr_char q c =
     (let n = (of_char c :: nat) in
      if c = CHR 0x5C then [CHR 0x5C, CHR 0x5C]
      else if c = q then [CHR 0x5C, q]
      else if c = CHR 0x09 then [CHR 0x5C, CHR ''t'']
      else if c = CHR 0x0A then [CHR 0x5C, CHR ''n'']
      else if c = CHR 0x0D then [CHR 0x5C, CHR ''r'']
      else if n < 32 \<or> n = 127
        then [CHR 0x5C, CHR ''x'', digit_char (n div 16), digit_char (n mod 16)]
      else [c])"

definition repr_str :: "string \<Rightarrow> string" where
  "repr_str s =
     (let q = (if CHR 0x27 \<in> set s \<and> CHR 0x22 \<notin> set s then CHR 0x22 else CHR 0x27)
      in q # concat (map (repr_char q) s) @ [q])"

fun py_repr :: "json \<Rightarrow> string" where
  "py_repr JNull = ''None''"
| "py_repr (JBool b) = (if b then ''True'' else ''False'')"
| "py_repr (JInt i) = str_int i"
| "py_repr (JStr s) = repr_str s"
| "py_repr (JList xs) = ''['' @ str_join '', '' (map py_repr xs) @ '']''"
| "py_repr (JObj kvs) =
     ''{'' @ str_join '', '' (map (\<lambda>kv. repr_str (fst kv) @ '': '' @ py_repr (snd kv)) kvs) @ ''}''"

text \<open>\<open>str(v)\<close>, which is what an f-string field \<open>{v}\<close> prints.\<close>

fun py_str :: "json \<Rightarrow> string" where
  "py_str (JStr s) = s"
| "py_str v = py_repr v"

fun type_name :: "json \<Rightarrow> string" where
  "type_name JNull = ''NoneType''"
| "type_name (JBool _) = ''bool''"
| "type_name (JInt _) = ''int''"
| "type_name (JStr _) = ''str''"
| "type_name (JList _) = ''list''"
| "type_name (JObj _) = ''dict''"

subsection \<open>Truth value, \<open>.get\<close>, \<open>len\<close>, iteration\<close>

fun truthy :: "json \<Rightarrow> bool" where
  "truthy JNull = False"
| "truthy (JBool b) = b"
| "truthy (JInt i) = (i \<noteq> 0)"
| "truthy (JStr s) = (s \<noteq> [])"
| "truthy (JList xs) = (xs \<noteq> [])"
| "truthy (JObj kvs) = (kvs \<noteq> [])"

text \<open>\<open>a or b\<close> on values.\<close>

definition py_or :: "json \<Rightarrow> json \<Rightarrow> json" where
  "py_or a b = (if truthy a then a else b)"

definition attribute_error :: "json \<Rightarrow> string \<Rightarrow> exn" where
  "attribute_error v a =
     OtherException ''AttributeError''
       (sq @ type_name v @ sq @ '' object has no attribute '' @ sq @ a @ sq)"

text \<open>\<open>v.get(k, d)\<close>: only a dict has the method.\<close>

fun py_get :: "json \<Rightarrow> string \<Rightarrow> json \<Rightarrow> exn + json" where
  "py_get (JObj kvs) k d = Inr (case map_of kvs k of Some v \<Rightarrow> v | None \<Rightarrow> d)"
| "py_get v k d = Inl (attribute_error v ''get'')"

text \<open>\<open>v[k]\<close> with a str key, as in \<open>contact["name"]\<close>.\<close>

fun py_item :: "json \<Rightarrow> string \<Rightarrow> exn + json" where
  "py_item (JObj kvs) k =
     (case map_of kvs k of Some v \<Rightarrow> Inr v | None \<Rightarrow> Inl (OtherException ''KeyError'' (repr_str k)))"
| "py_item v k = Inl (OtherException ''TypeError'' ''indices must be integers or the object is not subscriptable'')"

fun py_len :: "json \<Rightarrow> exn + nat" where
  "py_len (JStr s) = Inr (length s)"
| "py_len (JList xs) = Inr (length xs)"
| "py_len (JObj kvs) = Inr (length kvs)"
| "py_len v =
     Inl (OtherException ''TypeError'' (''object of type '' @ sq @ type_name v @ sq @ '' has no len()''))"

text \<open>The items a \<open>for\<close> loop sees: a dict yields its keys, a str its characters.\<close>

fun py_iter :: "json \<Rightarrow> exn + json list" where
  "py_iter (JList xs) = Inr xs"
| "py_iter (JObj kvs) = Inr (map (\<lambda>kv. JStr (fst kv)) kvs)"
| "py_iter (JStr s) = Inr (map (\<lambda>c. JStr [c]) s)"
| "py_iter v =
     Inl (OtherException ''TypeError'' (sq @ type_name v @ sq @ '' object is not iterable''))"

text \<open>\<open>sep.join(items)\<close>: every item has to be a str.\<close>

fun join_items :: "nat \<Rightarrow> json list \<Rightarrow> exn + string list" where
  "join_items i [] = Inr []"
| "join_items i (JStr s # vs) =
     (case join_items (Suc i) vs of Inl e \<Rightarrow> Inl e | Inr ss \<Rightarrow> Inr (s # ss))"
| "join_items i (v # vs) =
     Inl (OtherException ''TypeError''
       (''sequence item '' @ str_nat i @ '': expected str instance, '' @ type_name v @ '' found''))"

definition py_join :: "string \<Rightarrow> json list \<Rightarrow> exn + string" where
  "py_join sep vs = (case join_items 0 vs of Inl e \<Rightarrow> Inl e | Inr ss \<Rightarrow> Inr (str_join sep ss))"

section \<open>Formatting helpers\<close>

subsection \<open>Calendar arithmetic of \<open>datetime\<close>\<close>

text \<open>Days since 1970-01-01 of a proleptic Gregorian date, and back.\<close>

definition days_from_civil :: "int \<Rightarrow> int \<Rightarrow> int \<Rightarrow> int" where
  "days_from_civil y m d =
     (let y' = (if m \<le> 2 then y - 1 else y);
          era = y' div 400;
          yoe = y' - era * 400;
          doy = (153 * (if m > 2 then m - 3 else m + 9) + 2) div 5 + d - 1;
          doe = yoe * 365 + yoe div 4 - yoe div 100 + doy
      in era * 146097 + doe - 719468)"

definition civil_from_days :: "int \<Rightarrow> int \<times> int \<times> int" where
  "civil_from_days z0 =
     (let z = z0 + 719468;
          era = z div 146097;
          doe = z - era * 146097;
          yoe = (doe - doe div 1460 + doe div 36524 - doe div 146096) div 365;
          y = yoe + era * 400;
          doy = doe - (365 * yoe + yoe div 4 - yoe div 100);
          mp = (5 * doy + 2) div 153;
          d = doy - (153 * mp + 2) div 5 + 1;
          m = (if mp < 10 then mp + 3 else mp - 9)
      in ((if m \<le> 2 then y + 1 else y), m, d))"

definition pad2 :: "int \<Rightarrow> string" where
  "pad2 n = (if n < 10 then CHR ''0'' # str_int n else str_int n)"

definition pad4 :: "int \<Rightarrow> string" where
  "pad4 n = replicate (4 - length (str_int n)) CHR ''0'' @ str_int n"

text \<open>
  \<open>datetime.fromtimestamp(ts, tz=timezone.utc).strftime("%Y-%m-%d %H:%M:%S UTC")\<close> on an
  int. The years of \<open>datetime\<close> are 1 to 9999; outside them \<open>fromtimestamp\<close> raises
  (a \<open>ValueError\<close>, or an \<open>OverflowError\<close> far outside: the model keeps the first). Years
  below 1000, where the width of \<open>%Y\<close> depends on the C library, are printed with four
  digits.
\<close>

definition utc_strftime :: "int \<Rightarrow> exn + string" where
  "utc_strftime ts =
     (if ts < - 62135596800 \<or> 253402300799 < ts
      then Inl (ValueError ''year is out of range'')
      else
        (let days = ts div 86400;
             secs = ts mod 86400;
             ymd = civil_from_days days
         in Inr (pad4 (fst ymd) @ ''-'' @ pad2 (fst (snd ymd)) @ ''-'' @ pad2 (snd (snd ymd))
                 @ '' '' @ pad2 (secs div 3600) @ '':'' @ pad2 (secs mod 3600 div 60)
                 @ '':'' @ pad2 (secs mod 60) @ '' UTC'')))"

text \<open>\<open>_unix_to_str\<close>: \<open>if not ts: return "N/A"\<close> comes first, so every falsy value
  (\<open>None\<close>, \<open>0\<close>, \<open>False\<close>, an empty str, list or dict) prints as N/A.\<close>

definition unix_to_str :: "json \<Rightarrow> exn + string" where
  "unix_to_str ts =
     (if \<not> truthy ts then Inr ''N/A''
      else (case ts of
              JInt n \<Rightarrow> utc_strftime n
            | JBool b \<Rightarrow> utc_strftime (if b then 1 else 0)
            | _ \<Rightarrow> Inl (OtherException ''TypeError''
                       (sq @ type_name ts @ sq @ '' object cannot be interpreted as an integer''))))"

subsection \<open>Addresses and image URLs\<close>

definition address_keys :: "string list" where
  "address_keys = [''street_address_1'', ''street_address_2'', ''city'', ''state'', ''postal_code'']"

definition format_address :: "json \<Rightarrow> exn + string" where
  "format_address addr =
     (if \<not> truthy addr then Inr ''No address''
      else exn_bind (exn_map (\<lambda>k. py_get addr k (JStr [])) address_keys)
             (\<lambda>parts. py_join '', '' (filter truthy parts)))"

text \<open>\<open>uri.get("url") or uri.get("uri", "")\<close>\<close>

definition entry_url :: "json \<Rightarrow> exn + json" where
  "entry_url uri =
     exn_bind (py_get uri ''url'' JNull)
       (\<lambda>a. if truthy a then Inr a else py_get uri ''uri'' (JStr []))"

text \<open>The \<open>for\<close> loop of \<open>_get_photo_url\<close>: the first entry of the requested type returns.\<close>

fun find_size :: "json list \<Rightarrow> string \<Rightarrow> exn + json option" where
  "find_size [] sz = Inr None"
| "find_size (uri # rest) sz =
     exn_bind (py_get uri ''type'' JNull)
       (\<lambda>t. if t = JStr sz then exn_bind (entry_url uri) (\<lambda>u. Inr (Some u))
             else find_size rest sz)"

text \<open>\<open>uris[0]\<close>\<close>

fun py_first :: "json \<Rightarrow> exn + json" where
  "py_first (JList (x # xs)) = Inr x"
| "py_first (JList []) = Inl (OtherException ''IndexError'' ''list index out of range'')"
| "py_first (JStr (c # cs)) = Inr (JStr [c])"
| "py_first (JStr []) = Inl (OtherException ''IndexError'' ''string index out of range'')"
| "py_first (JObj kvs) = Inl (OtherException ''KeyError'' ''0'')"
| "py_first v =
     Inl (OtherException ''TypeError'' (sq @ type_name v @ sq @ '' object is not subscriptable''))"

definition get_photo_url :: "json \<Rightarrow> string \<Rightarrow> exn + json" where
  "get_photo_url uris sz =
     exn_bind (py_iter (py_or uris (JList [])))
       (\<lambda>entries. exn_bind (find_size entries sz)
          (\<lambda>hit. case hit of
                   Some u \<Rightarrow> Inr u
                 | None \<Rightarrow>
                     if truthy uris then exn_bind (py_first uris) entry_url
                     else Inr (JStr ''No URL available'')))"

subsection \<open>Project and photo summaries\<close>

text \<open>\<open>notepad[:200]\<close>\<close>

fun py_slice :: "nat \<Rightarrow> json \<Rightarrow> exn + json" where
  "py_slice n (JStr s) = Inr (JStr (take n s))"
| "py_slice n (JList xs) = Inr (JList (take n xs))"
| "py_slice n (JObj kvs) = Inl (OtherException ''TypeError'' (''unhashable type: '' @ sq @ ''slice'' @ sq))"
| "py_slice n v =
     Inl (OtherException ''TypeError'' (sq @ type_name v @ sq @ '' object is not subscriptable''))"

definition notepad_line :: "json \<Rightarrow> exn + string list" where
  "notepad_line notepad =
     (if truthy notepad
      then exn_bind (py_slice 200 notepad)
             (\<lambda>head. exn_bind (py_len notepad)
                (\<lambda>n. Inr [''  Notepad: '' @ py_str head @ (if n > 200 then ''...'' else [])]))
      else Inr [])"

definition contact_line :: "json \<Rightarrow> exn + string list" where
  "contact_line contact =
     (if \<not> truthy contact then Inr []
      else exn_bind (py_get contact ''name'' JNull)
        (\<lambda>nm. if \<not> truthy nm then Inr []
          else exn_bind (py_item contact ''name'')
            (\<lambda>p0. exn_bind (py_get contact ''phone_number'' JNull)
              (\<lambda>ph. exn_bind (if truthy ph then exn_bind (py_item contact ''phone_number'') (\<lambda>v. Inr [v]) else Inr [])
                (\<lambda>p1. exn_bind (py_get contact ''email'' JNull)
                  (\<lambda>em. exn_bind (if truthy em then exn_bind (py_item contact ''email'') (\<lambda>v. Inr [v]) else Inr [])
                    (\<lambda>p2. exn_bind (py_join '' | '' (p0 # p1 @ p2))
                      (\<lambda>s. Inr [''  Contact: '' @ s]))))))))"

definition integration_str :: "json \<Rightarrow> exn + json" where
  "integration_str i =
     exn_bind (py_get i ''type'' (JStr ''?''))
       (\<lambda>t. exn_bind (py_get i ''relation_id'' (JStr ''?''))
          (\<lambda>r. Inr (JStr (py_str t @ '':'' @ py_str r))))"

definition integrations_line :: "json \<Rightarrow> exn + string list" where
  "integrations_line integrations =
     (if truthy integrations
      then exn_bind (py_iter integrations)
             (\<lambda>items. exn_bind (exn_map integration_str items)
                (\<lambda>int_strs. exn_bind (py_join '', '' int_strs)
                   (\<lambda>s. Inr [''  Integrations: '' @ s])))
      else Inr [])"

definition format_project_summary :: "json \<Rightarrow> exn + string" where
  "format_project_summary project =
     exn_bind (py_get project ''address'' JNull) (\<lambda>a.
     exn_bind (format_address a) (\<lambda>addr.
     exn_bind (py_get project ''name'' JNull) (\<lambda>name0.
     exn_bind (py_get project ''id'' (JStr ''?'')) (\<lambda>pid.
     exn_bind (py_get project ''status'' (JStr ''?'')) (\<lambda>status.
     exn_bind (py_get project ''archived'' JNull) (\<lambda>arch.
     exn_bind (py_get project ''created_at'' JNull) (\<lambda>c.
     exn_bind (unix_to_str c) (\<lambda>created.
     exn_bind (py_get project ''updated_at'' JNull) (\<lambda>u.
     exn_bind (unix_to_str u) (\<lambda>updated.
     exn_bind (py_get project ''project_url'' (JStr [])) (\<lambda>url.
     exn_bind (py_get project ''notepad'' (JStr [])) (\<lambda>notepad.
     exn_bind (notepad_line notepad) (\<lambda>l2.
     exn_bind (py_get project ''primary_contact'' JNull) (\<lambda>contact.
     exn_bind (contact_line contact) (\<lambda>l3.
     exn_bind (py_get project ''integrations'' (JList [])) (\<lambda>integrations.
     exn_bind (integrations_line integrations) (\<lambda>l4.
       Inr (str_join nl
         ([''**'' @ py_str (py_or name0 (JStr ''Unnamed'')) @ ''** (ID: '' @ py_str pid @ '')''
             @ (if truthy arch then '' [ARCHIVED]'' else []),
           ''  Status: '' @ py_str status,
           ''  Address: '' @ addr,
           ''  Created: '' @ created @ '' | Updated: '' @ updated]
          @ (if truthy url then [''  URL: '' @ py_str url] else [])
          @ l2 @ l3 @ l4)))))))))))))))))))"

definition format_photo_summary :: "json \<Rightarrow> exn + string" where
  "format_photo_summary photo =
     exn_bind (py_get photo ''id'' (JStr ''?'')) (\<lambda>pid.
     exn_bind (py_get photo ''creator_name'' (JStr ''Unknown'')) (\<lambda>creator.
     exn_bind (py_get photo ''description'' (JStr [])) (\<lambda>desc.
     exn_bind (py_get photo ''captured_at'' JNull) (\<lambda>c.
     exn_bind (unix_to_str c) (\<lambda>captured.
     exn_bind (py_get photo ''uris'' (JList [])) (\<lambda>uris.
     exn_bind (get_photo_url uris ''web'') (\<lambda>url.
     exn_bind (py_get photo ''internal'' JNull) (\<lambda>internal.
     exn_bind (py_get photo ''photo_url'' (JStr [])) (\<lambda>photo_link.
       Inr (str_join nl
         ([''Photo '' @ py_str pid @ (if truthy internal then '' [INTERNAL]'' else [])
             @ '' '' @ em_dash @ '' by '' @ py_str creator @ '' on '' @ captured]
          @ (if truthy desc then [''  Description: '' @ py_str desc] else [])
          @ [''  Image: '' @ py_str url]
          @ (if truthy photo_link then [''  Web: '' @ py_str photo_link] else []))))))))))))"

section \<open>Date filters\<close>

text \<open>
  \<open>datetime.fromisoformat\<close>, on the grammar \<open>YYYY-MM-DD[*HH[:MM[:SS]][(+|-)HH:MM]]\<close>
  (\<open>*\<close> is any one character). Python accepts a few more forms (fractions of a second,
  seconds in the offset, and from 3.11 the basic and week formats); they are outside the
  model, which raises on them. Every failure is a \<open>ValueError\<close>.
\<close>

record datetime =
  year :: int
  month :: int
  day :: int
  hour :: int
  minute :: int
  second :: int
  tzinfo :: "int option"

definition is_digit :: "char \<Rightarrow> bool" where
  "is_digit c = (48 \<le> (of_char c :: nat) \<and> (of_char c :: nat) \<le> 57)"

definition num_of :: "string \<Rightarrow> int option" where
  "num_of s =
     (if s \<noteq> [] \<and> list_all is_digit s
      then Some (foldl (\<lambda>a c. 10 * a + (int (of_char c) - 48)) 0 s)
      else None)"

definition parse_isoformat_date :: "string \<Rightarrow> (int \<times> int \<times> int) option" where
  "parse_isoformat_date s =
     (if length s = 10 \<and> s ! 4 = CHR ''-'' \<and> s ! 7 = CHR ''-''
      then (case (num_of (take 4 s), num_of (take 2 (drop 5 s)), num_of (take 2 (drop 8 s))) of
              (Some y, Some m, Some d) \<Rightarrow> Some (y, m, d)
            | _ \<Rightarrow> None)
      else None)"

definition parse_hh_mm_ss :: "string \<Rightarrow> (int \<times> int \<times> int) option" where
  "parse_hh_mm_ss s =
     (if length s = 2 then
        (case num_of s of Some h \<Rightarrow> Some (h, 0, 0) | None \<Rightarrow> None)
      else if length s = 5 \<and> s ! 2 = CHR '':'' then
        (case (num_of (take 2 s), num_of (drop 3 s)) of
           (Some h, Some m) \<Rightarrow> Some (h, m, 0)
         | _ \<Rightarrow> None)
      else if length s = 8 \<and> s ! 2 = CHR '':'' \<and> s ! 5 = CHR '':'' then
        (case (num_of (take 2 s), num_of (take 2 (drop 3 s)), num_of (drop 6 s)) of
           (Some h, Some m, Some sec) \<Rightarrow> Some (h, m, sec)
         | _ \<Rightarrow> None)
      else None)"

text \<open>The time part is cut at its first \<open>-\<close>, or at its first \<open>+\<close> when it has no \<open>-\<close>.\<close>

definition tz_pos :: "string \<Rightarrow> nat option" where
  "tz_pos t =
     (if CHR ''-'' \<in> set t then Some (length (takeWhile (\<lambda>c. c \<noteq> CHR ''-'') t))
      else if CHR ''+'' \<in> set t then Some (length (takeWhile (\<lambda>c. c \<noteq> CHR ''+'') t))
      else None)"

definition parse_isoformat_time :: "string \<Rightarrow> ((int \<times> int \<times> int) \<times> int option) option" where
  "parse_isoformat_time t =
     (case tz_pos t of
        None \<Rightarrow> (case parse_hh_mm_ss t of Some hms \<Rightarrow> Some (hms, None) | None \<Rightarrow> None)
      | Some p \<Rightarrow>
          (let tzstr = drop (Suc p) t in
           if length tzstr \<noteq> 5 then None
           else (case (parse_hh_mm_ss (take p t), parse_hh_mm_ss tzstr) of
                   (Some hms, Some (oh, om, os)) \<Rightarrow>
                     Some (hms, Some ((if t ! p = CHR ''-'' then - 1 else 1) * (oh * 3600 + om * 60)))
                 | _ \<Rightarrow> None)))"

definition is_leap :: "int \<Rightarrow> bool" where
  "is_leap y = (y mod 4 = 0 \<and> (if y mod 100 = 0 then y mod 400 = 0 else True))"

definition days_in_month :: "int \<Rightarrow> int \<Rightarrow> int" where
  "days_in_month y m =
     (if m = 2 then (if is_leap y then 29 else 28)
      else if m = 4 \<or> m = 6 \<or> m = 9 \<or> m = 11 then 30 else 31)"

text \<open>The checks of the \<open>datetime\<close> constructor, in its order.\<close>

definition make_datetime :: "(int \<times> int \<times> int) \<Rightarrow> (int \<times> int \<times> int) \<Rightarrow> int option \<Rightarrow> exn + datetime" where
  "make_datetime ymd hms tz =
     (case ymd of (y, m, d) \<Rightarrow> (case hms of (h, mi, s) \<Rightarrow>
        if (case tz of Some off \<Rightarrow> off \<le> - 86400 \<or> 86400 \<le> off | None \<Rightarrow> False)
          then Inl (ValueError ''offset must be a timedelta strictly between -timedelta(hours=24) and timedelta(hours=24)'')
        else if y < 1 \<or> 9999 < y then Inl (ValueError (''year '' @ str_int y @ '' is out of range''))
        else if m < 1 \<or> 12 < m then Inl (ValueError ''month must be in 1..12'')
        else if d < 1 \<or> days_in_month y m < d then Inl (ValueError ''day is out of range for month'')
        else if 23 < h then Inl (ValueError ''hour must be in 0..23'')
        else if 59 < mi then Inl (ValueError ''minute must be in 0..59'')
        else if 59 < s then Inl (ValueError ''second must be in 0..59'')
        else Inr \<lparr>year = y, month = m, day = d, hour = h, minute = mi, second = s, tzinfo = tz\<rparr>))"

definition fromisoformat :: "string \<Rightarrow> exn + datetime" where
  "fromisoformat s =
     (let invalid = Inl (ValueError (''Invalid isoformat string: '' @ repr_str s)) in
      case parse_isoformat_date (take 10 s) of
        None \<Rightarrow> invalid
      | Some ymd \<Rightarrow>
          (if drop 11 s = [] then make_datetime ymd (0, 0, 0) None
           else (case parse_isoformat_time (drop 11 s) of
                   None \<Rightarrow> invalid
                 | Some (hms, tz) \<Rightarrow> make_datetime ymd hms tz)))"

text \<open>
  \<open>dt.timestamp()\<close>. A datetime with an offset is an instant. A naive one (no offset in
  the string) is read as local time of the process: \<open>local_offset\<close> is the offset from
  UTC, in seconds east, that the zone of the process has at that local time.
\<close>

definition timestamp :: "int \<Rightarrow> datetime \<Rightarrow> int" where
  "timestamp local_offset dt =
     days_from_civil (year dt) (month dt) (day dt) * 86400
       + hour dt * 3600 + minute dt * 60 + second dt
       - (case tzinfo dt of Some off \<Rightarrow> off | None \<Rightarrow> local_offset)"

text \<open>\<open>s.replace("Z", "+00:00")\<close>\<close>

definition replace_Z :: "string \<Rightarrow> string" where
  "replace_Z s = concat (map (\<lambda>c. if c = CHR ''Z'' then ''+00:00'' else [c]) s)"

text \<open>\<open>str(int(datetime.fromisoformat(d.replace("Z", "+00:00")).timestamp()))\<close>, the value
  \<open>cc_list_project_photos\<close> stores under \<open>start_date\<close> and \<open>end_date\<close>.\<close>

definition date_param :: "int \<Rightarrow> string \<Rightarrow> exn + string" where
  "date_param local_offset d =
     exn_bind (fromisoformat (replace_Z d)) (\<lambda>dt. Inr (str_int (timestamp local_offset dt)))"


section \<open>Input models\<close>

definition DEFAULT_PER_PAGE :: int where
  "DEFAULT_PER_PAGE = 25"

subsection \<open>The validated records\<close>

record SearchProjectsInput =
  query :: string
  page :: int
  per_page :: int

record GetProjectInput =
  project_id :: string

record ListProjectPhotosInput =
  project_id :: string
  start_date :: "string option"
  end_date :: "string option"
  user_id :: "string option"
  tag_id :: "string option"
  page :: int
  per_page :: int

record GetPhotoInput =
  photo_id :: string

record ListProjectLabelsInput =
  project_id :: string

record ListProjectCommentsInput =
  project_id :: string
  page :: int
  per_page :: int

record ListUsersInput =
  page :: int
  per_page :: int

record ListTagsInput =
  page :: int
  per_page :: int

record AddProjectCommentInput =
  project_id :: string
  content :: string

record AddPhotoTagsInput =
  photo_id :: string
  tags :: "string list"

record AddProjectLabelsInput =
  project_id :: string
  labels :: "string list"

text \<open>The field \<open>notepad\<close> of the source is \<open>notepad_content\<close> here (the name is reserved).\<close>

record UpdateNotepadInput =
  project_id :: string
  notepad_content :: string

record AddPhotoCommentInput =
  photo_id :: string
  content :: string

subsection \<open>Validation of the list operations' arguments\<close>

text \<open>
  The arguments a caller supplies for a model, before validation: every declared field is
  either omitted (\<open>None\<close>) or given with a value of the field's JSON type, and \<open>extra\<close>
  names the supplied fields that the model does not declare. Values of another JSON type
  for a declared field (which pydantic may coerce or reject) are outside the model.
\<close>

record SearchProjectsArgs =
  query :: "string option"
  page :: "int option"
  per_page :: "int option"
  extra :: "string list"

record ListProjectPhotosArgs =
  project_id :: "string option"
  start_date :: "string option"
  end_date :: "string option"
  user_id :: "string option"
  tag_id :: "string option"
  page :: "int option"
  per_page :: "int option"
  extra :: "string list"

record ListProjectLabelsArgs =
  project_id :: "string option"
  extra :: "string list"

record ListProjectCommentsArgs =
  project_id :: "string option"
  page :: "int option"
  per_page :: "int option"
  extra :: "string list"

record ListUsersArgs =
  page :: "int option"
  per_page :: "int option"
  extra :: "string list"

record ListTagsArgs =
  page :: "int option"
  per_page :: "int option"
  extra :: "string list"

text \<open>One entry of a \<open>ValidationError\<close>: the field and the reason.\<close>

datatype verr =
    Missing string
  | ExtraForbidden string
  | StringTooShort string nat
  | StringTooLong string nat
  | GreaterThanEqual string int
  | LessThanEqual string int

text \<open>\<open>str_strip_whitespace=True\<close>, on the ASCII white space.\<close>

definition is_space :: "char \<Rightarrow> bool" where
  "is_space c = (let n = (of_char c :: nat) in (9 \<le> n \<and> n \<le> 13) \<or> n = 32)"

definition strip_whitespace :: "string \<Rightarrow> string" where
  "strip_whitespace s = rev (dropWhile is_space (rev (dropWhile is_space s)))"

text \<open>\<open>Field(..., min_length=lo, max_length=hi)\<close> on a required str.\<close>

definition required_str :: "string \<Rightarrow> bool \<Rightarrow> nat \<Rightarrow> nat option \<Rightarrow> string option \<Rightarrow> verr list + string" where
  "required_str field strip lo hi v =
     (case v of
        None \<Rightarrow> Inl [Missing field]
      | Some s0 \<Rightarrow>
          (let s = (if strip then strip_whitespace s0 else s0) in
           if length s < lo then Inl [StringTooShort field lo]
           else (case hi of
                   Some h \<Rightarrow> if h < length s then Inl [StringTooLong field h] else Inr s
                 | None \<Rightarrow> Inr s)))"

text \<open>\<open>Optional[str] = Field(default=None)\<close>\<close>

definition optional_str :: "bool \<Rightarrow> string option \<Rightarrow> string option" where
  "optional_str strip v = (if strip then map_option strip_whitespace v else v)"

text \<open>\<open>int = Field(default=d, ge=lo, le=hi)\<close>; the default is not validated.\<close>

definition int_field :: "string \<Rightarrow> int \<Rightarrow> int \<Rightarrow> int option \<Rightarrow> int option \<Rightarrow> verr list + int" where
  "int_field field d lo hi v =
     (case v of
        None \<Rightarrow> Inr d
      | Some n \<Rightarrow>
          if n < lo then Inl [GreaterThanEqual field lo]
          else (case hi of
                  Some h \<Rightarrow> if h < n then Inl [LessThanEqual field h] else Inr n
                | None \<Rightarrow> Inr n))"

definition errors_of :: "verr list + 'a \<Rightarrow> verr list" where
  "errors_of r = (case r of Inl es \<Rightarrow> es | Inr _ \<Rightarrow> [])"

text \<open>\<open>extra="forbid"\<close>\<close>

definition forbid :: "string list \<Rightarrow> verr list" where
  "forbid names = map ExtraForbidden names"

definition validate_SearchProjectsInput :: "SearchProjectsArgs \<Rightarrow> verr list + SearchProjectsInput" where
  "validate_SearchProjectsInput a =
     (let q = required_str ''query'' True 1 (Some 200) (SearchProjectsArgs.query a);
          pg = int_field ''page'' 1 1 None (SearchProjectsArgs.page a);
          pp = int_field ''per_page'' DEFAULT_PER_PAGE 1 (Some 100) (SearchProjectsArgs.per_page a);
          ex = forbid (SearchProjectsArgs.extra a)
      in case (q, pg, pp, ex) of
           (Inr q', Inr pg', Inr pp', []) \<Rightarrow>
             Inr \<lparr>SearchProjectsInput.query = q', page = pg', per_page = pp'\<rparr>
         | _ \<Rightarrow> Inl (errors_of q @ errors_of pg @ errors_of pp @ ex))"

definition validate_ListProjectPhotosInput :: "ListProjectPhotosArgs \<Rightarrow> verr list + ListProjectPhotosInput" where
  "validate_ListProjectPhotosInput a =
     (let pid = required_str ''project_id'' True 1 None (ListProjectPhotosArgs.project_id a);
          pg = int_field ''page'' 1 1 None (ListProjectPhotosArgs.page a);
          pp = int_field ''per_page'' DEFAULT_PER_PAGE 1 (Some 100) (ListProjectPhotosArgs.per_page a);
          ex = forbid (ListProjectPhotosArgs.extra a)
      in case (pid, pg, pp, ex) of
           (Inr pid', Inr pg', Inr pp', []) \<Rightarrow>
             Inr \<lparr>ListProjectPhotosInput.project_id = pid',
                  start_date = optional_str True (ListProjectPhotosArgs.start_date a),
                  end_date = optional_str True (ListProjectPhotosArgs.end_date a),
                  user_id = optional_str True (ListProjectPhotosArgs.user_id a),
                  tag_id = optional_str True (ListProjectPhotosArgs.tag_id a),
                  page = pg', per_page = pp'\<rparr>
         | _ \<Rightarrow> Inl (errors_of pid @ errors_of pg @ errors_of pp @ ex))"

definition validate_ListProjectLabelsInput :: "ListProjectLabelsArgs \<Rightarrow> verr list + ListProjectLabelsInput" where
  "validate_ListProjectLabelsInput a =
     (let pid = required_str ''project_id'' True 1 None (ListProjectLabelsArgs.project_id a);
          ex = forbid (ListProjectLabelsArgs.extra a)
      in case (pid, ex) of
           (Inr pid', []) \<Rightarrow> Inr \<lparr>ListProjectLabelsInput.project_id = pid'\<rparr>
         | _ \<Rightarrow> Inl (errors_of pid @ ex))"

definition validate_ListProjectCommentsInput :: "ListProjectCommentsArgs \<Rightarrow> verr list + ListProjectCommentsInput" where
  "validate_ListProjectCommentsInput a =
     (let pid = required_str ''project_id'' True 1 None (ListProjectCommentsArgs.project_id a);
          pg = int_field ''page'' 1 1 None (ListProjectCommentsArgs.page a);
          pp = int_field ''per_page'' DEFAULT_PER_PAGE 1 (Some 100) (ListProjectCommentsArgs.per_page a);
          ex = forbid (ListProjectCommentsArgs.extra a)
      in case (pid, pg, pp, ex) of
           (Inr pid', Inr pg', Inr pp', []) \<Rightarrow>
             Inr \<lparr>ListProjectCommentsInput.project_id = pid', page = pg', per_page = pp'\<rparr>
         | _ \<Rightarrow> Inl (errors_of pid @ errors_of pg @ errors_of pp @ ex))"

definition validate_ListUsersInput :: "ListUsersArgs \<Rightarrow> verr list + ListUsersInput" where
  "validate_ListUsersInput a =
     (let pg = int_field ''page'' 1 1 None (ListUsersArgs.page a);
          pp = int_field ''per_page'' 100 1 (Some 100) (ListUsersArgs.per_page a);
          ex = forbid (ListUsersArgs.extra a)
      in case (pg, pp, ex) of
           (Inr pg', Inr pp', []) \<Rightarrow> Inr \<lparr>ListUsersInput.page = pg', per_page = pp'\<rparr>
         | _ \<Rightarrow> Inl (errors_of pg @ errors_of pp @ ex))"

definition validate_ListTagsInput :: "ListTagsArgs \<Rightarrow> verr list + ListTagsInput" where
  "validate_ListTagsInput a =
     (let pg = int_field ''page'' 1 1 None (ListTagsArgs.page a);
          pp = int_field ''per_page'' 100 1 (Some 100) (ListTagsArgs.per_page a);
          ex = forbid (ListTagsArgs.extra a)
      in case (pg, pp, ex) of
           (Inr pg', Inr pp', []) \<Rightarrow> Inr \<lparr>ListTagsInput.page = pg', per_page = pp'\<rparr>
         | _ \<Rightarrow> Inl (errors_of pg @ errors_of pp @ ex))"


section \<open>HTTP client\<close>

definition BASE_URL :: string where
  "BASE_URL = ''https://api.companycam.com/v2''"

datatype http_method = GET | POST | PUT

record request =
  http_method :: http_method
  url :: string
  headers :: "(string \<times> string) list"
  params :: "(string \<times> json) list"
  json_body :: "json option"

text \<open>
  What the remote service and the network do with a request, as httpx reports it: a
  response (status code, body text, and what \<open>response.json()\<close> makes of the body: the
  message of the decode error or the value), or an exception raised by the call
  (a timeout, a connection fault, a cancellation).
\<close>

datatype reply =
    Response int string "string + json"
  | Fault exn

text \<open>
  The process: the token read from the environment at start-up (\<open>""\<close> when the variable
  is not set), the offset of its local time zone, and the remote service.
\<close>

record env =
  API_TOKEN :: string
  local_offset :: int
  remote :: "request \<Rightarrow> reply"

definition get_headers :: "string \<Rightarrow> exn + (string \<times> string) list" where
  "get_headers token =
     (if token = []
      then Inl (ValueError (''COMPANYCAM_API_TOKEN environment variable is not set. ''
                            @ ''Generate a token at app.companycam.com/access_tokens''))
      else Inr [(''Authorization'', ''Bearer '' @ token),
                (''Content-Type'', ''application/json''),
                (''Accept'', ''application/json'')])"

text \<open>\<open>response.raise_for_status()\<close> then \<open>response.json()\<close>. A \<open>JSONDecodeError\<close> is a
  \<open>ValueError\<close>.\<close>

definition read_reply :: "reply \<Rightarrow> exn + json" where
  "read_reply r =
     (case r of
        Fault e \<Rightarrow> Inl e
      | Response status text decoded \<Rightarrow>
          if 200 \<le> status \<and> status \<le> 299
          then (case decoded of Inl msg \<Rightarrow> Inl (ValueError msg) | Inr v \<Rightarrow> Inr v)
          else Inl (HTTPStatusError status text))"

text \<open>
  The three transport functions return the result together with the requests they sent.
  The arguments of \<open>client.get(...)\<close> are evaluated before the call, so a failure of
  \<open>_get_headers()\<close> leaves without a request.
\<close>

definition api_get :: "env \<Rightarrow> string \<Rightarrow> (string \<times> json) list \<Rightarrow> (exn + json) \<times> request list" where
  "api_get env path ps =
     (case get_headers (API_TOKEN env) of
        Inl e \<Rightarrow> (Inl e, [])
      | Inr h \<Rightarrow>
          (let req = \<lparr>http_method = GET, url = BASE_URL @ path, headers = h, params = ps, json_body = None\<rparr>
           in (read_reply (remote env req), [req])))"

definition api_post :: "env \<Rightarrow> string \<Rightarrow> json \<Rightarrow> (exn + json) \<times> request list" where
  "api_post env path data =
     (case get_headers (API_TOKEN env) of
        Inl e \<Rightarrow> (Inl e, [])
      | Inr h \<Rightarrow>
          (let req = \<lparr>http_method = POST, url = BASE_URL @ path, headers = h, params = [], json_body = Some data\<rparr>
           in (read_reply (remote env req), [req])))"

definition api_put :: "env \<Rightarrow> string \<Rightarrow> json \<Rightarrow> (exn + json) \<times> request list" where
  "api_put env path data =
     (case get_headers (API_TOKEN env) of
        Inl e \<Rightarrow> (Inl e, [])
      | Inr h \<Rightarrow>
          (let req = \<lparr>http_method = PUT, url = BASE_URL @ path, headers = h, params = [], json_body = Some data\<rparr>
           in (read_reply (remote env req), [req])))"

definition handle_api_error :: "exn \<Rightarrow> string" where
  "handle_api_error e =
     (case e of
        HTTPStatusError status body \<Rightarrow>
          if status = 401 then ''Error: Authentication failed. Check your COMPANYCAM_API_TOKEN.''
          else if status = 403 then ''Error: Permission denied. Ensure your account has API access (Pro+ plan, Admin role).''
          else if status = 404 then ''Error: Resource not found. Check the ID is correct.''
          else if status = 429 then ''Error: Rate limit exceeded. Wait a moment and retry.''
          else ''Error: API returned '' @ str_int status @ ''. Response: '' @ take 500 body
      | TimeoutException cls msg \<Rightarrow> ''Error: Request timed out. Try again.''
      | ValueError msg \<Rightarrow> ''Error: '' @ msg
      | OtherException cls msg \<Rightarrow> ''Error: '' @ cls @ '': '' @ msg
      | BaseExceptionOnly cls msg \<Rightarrow> ''Error: '' @ cls @ '': '' @ msg)"

section \<open>Operations\<close>

text \<open>
  What a caller of an operation observes: the returned text, or an exception that leaves
  the function. Every operation is \<open>try: ... except Exception as e: return
  _handle_api_error(e)\<close>; \<open>except Exception\<close> lets the exceptions through that derive from
  \<open>BaseException\<close> only.
\<close>

datatype outcome = Returned string | Raised exn

definition is_Exception :: "exn \<Rightarrow> bool" where
  "is_Exception e = (case e of BaseExceptionOnly cls msg \<Rightarrow> False | _ \<Rightarrow> True)"

definition try_except :: "exn + string \<Rightarrow> outcome" where
  "try_except r =
     (case r of
        Inr s \<Rightarrow> Returned s
      | Inl e \<Rightarrow> if is_Exception e then Returned (handle_api_error e) else Raised e)"

text \<open>The \<open>for\<close> loops that append a summary and an empty line per item.\<close>

definition spaced :: "string list \<Rightarrow> string list" where
  "spaced ss = concat (map (\<lambda>s. [s, []]) ss)"

subsection \<open>Read operations\<close>

definition more_projects_hint :: "int \<Rightarrow> string" where
  "more_projects_hint pg = ''_More results may be available on page '' @ str_int (pg + 1) @ ''._''"

definition search_projects_text :: "SearchProjectsInput \<Rightarrow> json \<Rightarrow> exn + string" where
  "search_projects_text p data =
     (if \<not> truthy data
      then Inr (''No projects found matching '' @ sq @ SearchProjectsInput.query p @ sq @ ''.'')
      else exn_bind (py_len data) (\<lambda>n.
           exn_bind (py_iter data) (\<lambda>items.
           exn_bind (exn_map format_project_summary items) (\<lambda>sums.
             Inr (str_join nl
               ([''**Found '' @ str_nat n @ '' project(s) matching '' @ sq
                   @ SearchProjectsInput.query p @ sq @ ''** (page ''
                   @ str_int (SearchProjectsInput.page p) @ ''):'' @ nl]
                @ spaced sums
                @ (if int n = SearchProjectsInput.per_page p
                   then [more_projects_hint (SearchProjectsInput.page p)] else [])))))))"

definition cc_search_projects :: "env \<Rightarrow> SearchProjectsInput \<Rightarrow> outcome \<times> request list" where
  "cc_search_projects env p =
     (case api_get env ''/projects''
             [(''query'', JStr (SearchProjectsInput.query p)),
              (''page'', JInt (SearchProjectsInput.page p)),
              (''per_page'', JInt (SearchProjectsInput.per_page p))] of
        (r, sent) \<Rightarrow> (try_except (exn_bind r (search_projects_text p)), sent))"

definition cc_get_project :: "env \<Rightarrow> GetProjectInput \<Rightarrow> outcome \<times> request list" where
  "cc_get_project env p =
     (case api_get env (''/projects/'' @ GetProjectInput.project_id p) [] of
        (r, sent) \<Rightarrow> (try_except (exn_bind r format_project_summary), sent))"

text \<open>\<open>if params.x: api_params[key] = f(params.x)\<close> for an optional str field.\<close>

definition opt_param :: "string \<Rightarrow> (string \<Rightarrow> exn + string) \<Rightarrow> string option \<Rightarrow> exn + (string \<times> json) list" where
  "opt_param key f v =
     (case v of
        None \<Rightarrow> Inr []
      | Some s \<Rightarrow> if s = [] then Inr [] else exn_bind (f s) (\<lambda>t. Inr [(key, JStr t)]))"

definition photos_api_params :: "int \<Rightarrow> ListProjectPhotosInput \<Rightarrow> exn + (string \<times> json) list" where
  "photos_api_params off p =
     exn_bind (opt_param ''start_date'' (date_param off) (ListProjectPhotosInput.start_date p)) (\<lambda>sd.
     exn_bind (opt_param ''end_date'' (date_param off) (ListProjectPhotosInput.end_date p)) (\<lambda>ed.
     exn_bind (opt_param ''user_ids[]'' Inr (ListProjectPhotosInput.user_id p)) (\<lambda>us.
     exn_bind (opt_param ''tag_ids[]'' Inr (ListProjectPhotosInput.tag_id p)) (\<lambda>ts.
       Inr ([(''page'', JInt (ListProjectPhotosInput.page p)),
             (''per_page'', JInt (ListProjectPhotosInput.per_page p))] @ sd @ ed @ us @ ts)))))"

definition more_photos_hint :: "int \<Rightarrow> string" where
  "more_photos_hint pg = ''_More photos may be available on page '' @ str_int (pg + 1) @ ''._''"

definition list_project_photos_text :: "ListProjectPhotosInput \<Rightarrow> json \<Rightarrow> exn + string" where
  "list_project_photos_text p data =
     (if \<not> truthy data
      then Inr (''No photos found for project '' @ ListProjectPhotosInput.project_id p
                @ '' with the given filters.'')
      else exn_bind (py_len data) (\<lambda>n.
           exn_bind (py_iter data) (\<lambda>items.
           exn_bind (exn_map format_photo_summary items) (\<lambda>sums.
             Inr (str_join nl
               ([''**'' @ str_nat n @ '' photo(s)** for project ''
                   @ ListProjectPhotosInput.project_id p @ '' (page ''
                   @ str_int (ListProjectPhotosInput.page p) @ ''):'' @ nl]
                @ spaced sums
                @ (if int n = ListProjectPhotosInput.per_page p
                   then [more_photos_hint (ListProjectPhotosInput.page p)] else [])))))))"

definition cc_list_project_photos :: "env \<Rightarrow> ListProjectPhotosInput \<Rightarrow> outcome \<times> request list" where
  "cc_list_project_photos env p =
     (case photos_api_params (local_offset env) p of
        Inl e \<Rightarrow> (try_except (Inl e), [])
      | Inr api_params \<Rightarrow>
          (case api_get env (''/projects/'' @ ListProjectPhotosInput.project_id p @ ''/photos'') api_params of
             (r, sent) \<Rightarrow> (try_except (exn_bind r (list_project_photos_text p)), sent)))"


definition location_line :: "json \<Rightarrow> exn + string" where
  "location_line c =
     exn_bind (py_get c ''lat'' (JStr ''?'')) (\<lambda>la.
     exn_bind (py_get c ''lon'' (JStr ''?'')) (\<lambda>lo.
       Inr (''  Location: '' @ py_str la @ '', '' @ py_str lo)))"

definition location_lines :: "json \<Rightarrow> exn + string list" where
  "location_lines coords =
     (if truthy coords
      then exn_map location_line (case coords of JList cs \<Rightarrow> cs | _ \<Rightarrow> [coords])
      else Inr [])"

definition size_line :: "json \<Rightarrow> exn + string" where
  "size_line uri =
     exn_bind (py_get uri ''type'' (JStr ''?'')) (\<lambda>t.
     exn_bind (entry_url uri) (\<lambda>u.
       Inr (''    '' @ py_str t @ '': '' @ py_str u)))"

definition sizes_lines :: "json \<Rightarrow> exn + string list" where
  "sizes_lines uris =
     exn_bind (py_len uris) (\<lambda>n.
       if n > 1
       then exn_bind (py_iter uris) (\<lambda>items.
            exn_bind (exn_map size_line items) (\<lambda>ls. Inr (''  All sizes:'' # ls)))
       else Inr [])"

definition get_photo_text :: "json \<Rightarrow> exn + string" where
  "get_photo_text photo =
     exn_bind (format_photo_summary photo) (\<lambda>summary.
     exn_bind (py_get photo ''coordinates'' JNull) (\<lambda>coords.
     exn_bind (location_lines coords) (\<lambda>locs.
     exn_bind (py_get photo ''uris'' (JList [])) (\<lambda>uris.
     exn_bind (sizes_lines uris) (\<lambda>sizes.
     exn_bind (py_get photo ''processing_status'' (JStr ''?'')) (\<lambda>st.
     exn_bind (py_get photo ''project_id'' (JStr ''?'')) (\<lambda>pid.
       Inr (str_join nl
         ([summary] @ locs @ sizes
          @ [''  Processing: '' @ py_str st, ''  Project ID: '' @ py_str pid])))))))))"

definition cc_get_photo :: "env \<Rightarrow> GetPhotoInput \<Rightarrow> outcome \<times> request list" where
  "cc_get_photo env p =
     (case api_get env (''/photos/'' @ GetPhotoInput.photo_id p) [] of
        (r, sent) \<Rightarrow> (try_except (exn_bind r get_photo_text), sent))"

definition tag_line :: "json \<Rightarrow> exn + string" where
  "tag_line tag =
     exn_bind (py_get tag ''display_value'' (JStr ''?'')) (\<lambda>dv.
     exn_bind (py_get tag ''id'' (JStr ''?'')) (\<lambda>i.
       Inr (''  '' @ bullet @ '' '' @ py_str dv @ '' (ID: '' @ py_str i @ '')'')))"

definition list_project_labels_text :: "ListProjectLabelsInput \<Rightarrow> json \<Rightarrow> exn + string" where
  "list_project_labels_text p data =
     (if \<not> truthy data
      then Inr (''No labels on project '' @ ListProjectLabelsInput.project_id p @ ''.'')
      else exn_bind (py_len data) (\<lambda>n.
           exn_bind (py_iter data) (\<lambda>items.
           exn_bind (exn_map tag_line items) (\<lambda>ls.
             Inr (str_join nl
               ((''**'' @ str_nat n @ '' label(s)** on project ''
                   @ ListProjectLabelsInput.project_id p @ '':'') # ls))))))"

definition cc_list_project_labels :: "env \<Rightarrow> ListProjectLabelsInput \<Rightarrow> outcome \<times> request list" where
  "cc_list_project_labels env p =
     (case api_get env (''/projects/'' @ ListProjectLabelsInput.project_id p @ ''/labels'') [] of
        (r, sent) \<Rightarrow> (try_except (exn_bind r (list_project_labels_text p)), sent))"

definition comment_line :: "json \<Rightarrow> exn + string" where
  "comment_line comment =
     exn_bind (py_get comment ''creator_name'' (JStr ''Unknown'')) (\<lambda>author.
     exn_bind (py_get comment ''content'' (JStr [])) (\<lambda>content.
     exn_bind (py_get comment ''created_at'' JNull) (\<lambda>c.
     exn_bind (unix_to_str c) (\<lambda>created.
       Inr (''  ['' @ created @ ''] **'' @ py_str author @ ''**: '' @ py_str content)))))"

definition list_project_comments_text :: "ListProjectCommentsInput \<Rightarrow> json \<Rightarrow> exn + string" where
  "list_project_comments_text p data =
     (if \<not> truthy data
      then Inr (''No comments on project '' @ ListProjectCommentsInput.project_id p @ ''.'')
      else exn_bind (py_len data) (\<lambda>n.
           exn_bind (py_iter data) (\<lambda>items.
           exn_bind (exn_map comment_line items) (\<lambda>ls.
             Inr (str_join nl
               ((''**'' @ str_nat n @ '' comment(s)** on project ''
                   @ ListProjectCommentsInput.project_id p @ '':'' @ nl) # ls))))))"

definition cc_list_project_comments :: "env \<Rightarrow> ListProjectCommentsInput \<Rightarrow> outcome \<times> request list" where
  "cc_list_project_comments env p =
     (case api_get env (''/projects/'' @ ListProjectCommentsInput.project_id p @ ''/comments'')
             [(''page'', JInt (ListProjectCommentsInput.page p)),
              (''per_page'', JInt (ListProjectCommentsInput.per_page p))] of
        (r, sent) \<Rightarrow> (try_except (exn_bind r (list_project_comments_text p)), sent))"

text \<open>\<open>str.strip()\<close>, on the ASCII white space of Python.\<close>

definition py_isspace :: "char \<Rightarrow> bool" where
  "py_isspace c = (let n = (of_char c :: nat) in (9 \<le> n \<and> n \<le> 13) \<or> (28 \<le> n \<and> n \<le> 32))"

definition py_strip :: "string \<Rightarrow> string" where
  "py_strip s = rev (dropWhile py_isspace (rev (dropWhile py_isspace s)))"

definition user_line :: "json \<Rightarrow> exn + string" where
  "user_line user =
     exn_bind (py_get user ''first_name'' (JStr [])) (\<lambda>fn.
     exn_bind (py_get user ''last_name'' (JStr [])) (\<lambda>ln.
     exn_bind (py_get user ''email_address'' (JStr [])) (\<lambda>email.
     exn_bind (py_get user ''id'' (JStr ''?'')) (\<lambda>uid.
     exn_bind (py_get user ''status'' (JStr ''?'')) (\<lambda>status.
       Inr (''  '' @ bullet @ '' '' @ py_strip (py_str fn @ '' '' @ py_str ln) @ '' '' @ em_dash
            @ '' ID: '' @ py_str uid @ '' | '' @ py_str email @ '' | '' @ py_str status))))))"

definition list_users_text :: "json \<Rightarrow> exn + string" where
  "list_users_text data =
     (if \<not> truthy data
      then Inr ''No users found.''
      else exn_bind (py_len data) (\<lambda>n.
           exn_bind (py_iter data) (\<lambda>items.
           exn_bind (exn_map user_line items) (\<lambda>ls.
             Inr (str_join nl ((''**'' @ str_nat n @ '' user(s):**'' @ nl) # ls))))))"

definition cc_list_users :: "env \<Rightarrow> ListUsersInput \<Rightarrow> outcome \<times> request list" where
  "cc_list_users env p =
     (case api_get env ''/users''
             [(''page'', JInt (ListUsersInput.page p)),
              (''per_page'', JInt (ListUsersInput.per_page p))] of
        (r, sent) \<Rightarrow> (try_except (exn_bind r list_users_text), sent))"

definition list_tags_text :: "json \<Rightarrow> exn + string" where
  "list_tags_text data =
     (if \<not> truthy data
      then Inr ''No tags found.''
      else exn_bind (py_len data) (\<lambda>n.
           exn_bind (py_iter data) (\<lambda>items.
           exn_bind (exn_map tag_line items) (\<lambda>ls.
             Inr (str_join nl ((''**'' @ str_nat n @ '' tag(s):**'' @ nl) # ls))))))"

definition cc_list_tags :: "env \<Rightarrow> ListTagsInput \<Rightarrow> outcome \<times> request list" where
  "cc_list_tags env p =
     (case api_get env ''/tags''
             [(''page'', JInt (ListTagsInput.page p)),
              (''per_page'', JInt (ListTagsInput.per_page p))] of
        (r, sent) \<Rightarrow> (try_except (exn_bind r list_tags_text), sent))"

subsection \<open>Write operations\<close>

definition add_project_comment_text :: "AddProjectCommentInput \<Rightarrow> json \<Rightarrow> exn + string" where
  "add_project_comment_text p data =
     exn_bind (py_get data ''creator_name'' (JStr ''Unknown'')) (\<lambda>author.
     exn_bind (py_get data ''created_at'' JNull) (\<lambda>c.
     exn_bind (unix_to_str c) (\<lambda>created.
     exn_bind (py_get data ''content'' (JStr [])) (\<lambda>ct.
       Inr (''Comment added to project '' @ AddProjectCommentInput.project_id p @ '' by ''
            @ py_str author @ '' at '' @ created @ '':'' @ nl @ dq @ py_str ct @ dq)))))"

definition cc_add_project_comment :: "env \<Rightarrow> AddProjectCommentInput \<Rightarrow> outcome \<times> request list" where
  "cc_add_project_comment env p =
     (case api_post env (''/projects/'' @ AddProjectCommentInput.project_id p @ ''/comments'')
             (JObj [(''comment'', JObj [(''content'', JStr (AddProjectCommentInput.content p))])]) of
        (r, sent) \<Rightarrow> (try_except (exn_bind r (add_project_comment_text p)), sent))"

definition add_photo_tags_text :: "AddPhotoTagsInput \<Rightarrow> json \<Rightarrow> exn + string" where
  "add_photo_tags_text p data =
     exn_bind
       (case data of
          JList (t # ts) \<Rightarrow>
            exn_bind (exn_map (\<lambda>x. py_get x ''display_value'' (JStr ''?'')) (t # ts)) (py_join '', '')
        | _ \<Rightarrow> Inr (str_join '', '' (AddPhotoTagsInput.tags p)))
       (\<lambda>joined. Inr (''Tags added to photo '' @ AddPhotoTagsInput.photo_id p @ '': '' @ joined))"

definition cc_add_photo_tags :: "env \<Rightarrow> AddPhotoTagsInput \<Rightarrow> outcome \<times> request list" where
  "cc_add_photo_tags env p =
     (case api_post env (''/photos/'' @ AddPhotoTagsInput.photo_id p @ ''/tags'')
             (JObj [(''tag'', JObj [(''display_values'', JList (map JStr (AddPhotoTagsInput.tags p)))])]) of
        (r, sent) \<Rightarrow> (try_except (exn_bind r (add_photo_tags_text p)), sent))"

definition cc_add_project_labels :: "env \<Rightarrow> AddProjectLabelsInput \<Rightarrow> outcome \<times> request list" where
  "cc_add_project_labels env p =
     (case api_post env (''/projects/'' @ AddProjectLabelsInput.project_id p @ ''/labels'')
             (JObj [(''project'', JObj [(''labels'', JList (map JStr (AddProjectLabelsInput.labels p)))])]) of
        (r, sent) \<Rightarrow>
          (try_except (exn_bind r (\<lambda>data.
             Inr (''Labels added to project '' @ AddProjectLabelsInput.project_id p @ '': ''
                  @ str_join '', '' (AddProjectLabelsInput.labels p)))), sent))"

definition cc_update_project_notepad :: "env \<Rightarrow> UpdateNotepadInput \<Rightarrow> outcome \<times> request list" where
  "cc_update_project_notepad env p =
     (case api_put env (''/projects/'' @ UpdateNotepadInput.project_id p @ ''/notepad'')
             (JObj [(''notepad'', JStr (notepad_content p))]) of
        (r, sent) \<Rightarrow>
          (try_except (exn_bind r (\<lambda>data.
             Inr (''Notepad updated for project '' @ UpdateNotepadInput.project_id p
                  @ ''. New content ('' @ str_nat (length (notepad_content p)) @ '' chars).''))), sent))"

definition add_photo_comment_text :: "AddPhotoCommentInput \<Rightarrow> json \<Rightarrow> exn + string" where
  "add_photo_comment_text p data =
     exn_bind (py_get data ''creator_name'' (JStr ''Unknown'')) (\<lambda>author.
     exn_bind (py_get data ''content'' (JStr [])) (\<lambda>ct.
       Inr (''Comment added to photo '' @ AddPhotoCommentInput.photo_id p @ '' by ''
            @ py_str author @ '':'' @ nl @ dq @ py_str ct @ dq)))"

definition cc_add_photo_comment :: "env \<Rightarrow> AddPhotoCommentInput \<Rightarrow> outcome \<times> request list" where
  "cc_add_photo_comment env p =
     (case api_post env (''/photos/'' @ AddPhotoCommentInput.photo_id p @ ''/comments'')
             (JObj [(''comment'', JObj [(''content'', JStr (AddPhotoCommentInput.content p))])]) of
        (r, sent) \<Rightarrow> (try_except (exn_bind r (add_photo_comment_text p)), sent))"

subsection \<open>Invocation by the host\<close>

text \<open>
  The host builds the \<open>params\<close> record of a tool from the caller's arguments before it
  runs the handler: a \<open>ValidationError\<close> ends the invocation there, with no request sent.
\<close>

datatype invocation = Rejected "verr list" | Ran outcome

definition invoke :: "('a \<Rightarrow> verr list + 'p) \<Rightarrow> ('p \<Rightarrow> outcome \<times> request list) \<Rightarrow> 'a \<Rightarrow> invocation \<times> request list" where
  "invoke validate handler args =
     (case validate args of
        Inl errs \<Rightarrow> (Rejected errs, [])
      | Inr p \<Rightarrow> (case handler p of (out, sent) \<Rightarrow> (Ran out, sent)))"


section \<open>Predicates of the statements\<close>

text \<open>An entry of a photo's URI list that is a dict of another type than the requested one.\<close>

definition other_type :: "string \<Rightarrow> json \<Rightarrow> bool" where
  "other_type sz u = (case u of JObj kvs \<Rightarrow> map_of kvs ''type'' \<noteq> Some (JStr sz) | _ \<Rightarrow> False)"

text \<open>An invocation that ends in a \<open>ValidationError\<close>, with no request sent.\<close>

definition rejects :: "('a \<Rightarrow> verr list + 'p) \<Rightarrow> ('p \<Rightarrow> outcome \<times> request list) \<Rightarrow> 'a \<Rightarrow> bool" where
  "rejects validate handler args =
     (case invoke validate handler args of (Rejected errs, sent) \<Rightarrow> sent = [] | (Ran out, sent) \<Rightarrow> False)"

text \<open>The text \<open>_handle_api_error\<close> makes of the \<open>ValueError\<close> that \<open>_get_headers\<close> raises.\<close>

definition missing_token_text :: string where
  "missing_token_text =
     ''Error: COMPANYCAM_API_TOKEN environment variable is not set. ''
     @ ''Generate a token at app.companycam.com/access_tokens''"

text \<open>A remote service that answers every request with the given status code.\<close>

definition answers_with :: "env \<Rightarrow> int \<Rightarrow> bool" where
  "answers_with env status = (\<forall>req. \<exists>text decoded. remote env req = Response status text decoded)"

text \<open>A remote service that answers every request with status 200 and the given JSON list.\<close>

definition returns_list :: "env \<Rightarrow> json list \<Rightarrow> bool" where
  "returns_list env items = (\<forall>req. \<exists>text. remote env req = Response 200 text (Inr (JList items)))"

text \<open>A network whose faults are instances of \<open>Exception\<close>.\<close>

definition faults_are_Exceptions :: "env \<Rightarrow> bool" where
  "faults_are_Exceptions env =
     (\<forall>req. case remote env req of Fault e \<Rightarrow> is_Exception e | Response status text decoded \<Rightarrow> True)"

text \<open>A result that is a value or an instance of \<open>Exception\<close>.\<close>

definition catchable :: "exn + 'a \<Rightarrow> bool" where
  "catchable r = (case r of Inl e \<Rightarrow> is_Exception e | Inr v \<Rightarrow> True)"

text \<open>\<open>text.endswith(s)\<close>\<close>

definition ends_with :: "string \<Rightarrow> string \<Rightarrow> bool" where
  "ends_with text s = (length s \<le> length text \<and> drop (length text - length s) text = s)"

section \<open>Properties\<close>

subsection \<open>Timestamps\<close>

text \<open>
  C9. \<open>_unix_to_str\<close> treats the integer 0, the Unix epoch, like an absent timestamp:
  for \<open>ts = 0\<close> as for \<open>ts = None\<close> it returns \<open>N/A\<close> and not the text of the epoch, which
  is what the formatting itself gives at 0 (and what the next second prints).
\<close>

theorem unix_to_str_epoch_is_absent:
  "unix_to_str (JInt 0) = Inr ''N/A'' \<and> unix_to_str JNull = Inr ''N/A''
   \<and> unix_to_str (JInt 0) \<noteq> Inr ''1970-01-01 00:00:00 UTC''
   \<and> utc_strftime 0 = Inr ''1970-01-01 00:00:00 UTC''
   \<and> unix_to_str (JInt 1) = Inr ''1970-01-01 00:00:01 UTC''"
proof -
  have zero: "unix_to_str (JInt 0) = Inr ''N/A''" and none: "unix_to_str JNull = Inr ''N/A''"
    by (simp_all add: unix_to_str_def)
  have epoch: "utc_strftime 0 = Inr ''1970-01-01 00:00:00 UTC''"
    by code_simp
  have one: "unix_to_str (JInt 1) = Inr ''1970-01-01 00:00:01 UTC''"
    by code_simp
  from zero have "unix_to_str (JInt 0) \<noteq> Inr ''1970-01-01 00:00:00 UTC''"
    by simp
  with zero none epoch one show ?thesis by simp
qed

subsection \<open>Date filters\<close>

text \<open>
  C1. The claim is that \<open>"2025-01-15"\<close> is sent as the Unix seconds of
  2025-01-15T00:00:00Z, which is 1736899200. The code parses the string to a naive
  datetime and takes its \<open>timestamp()\<close>, which reads it as local time: in a process whose
  zone is six hours west of UTC the value is 1736920800, and that is what the request
  of \<open>cc_list_project_photos\<close> carries. Only with a local offset of zero, or with an
  explicit \<open>Z\<close> in the string, is it the UTC value.
\<close>

theorem date_param_reads_naive_date_as_local_time:
  "date_param (- 21600) ''2025-01-15'' = Inr ''1736920800''
   \<and> date_param (- 21600) ''2025-01-15'' \<noteq> Inr ''1736899200''
   \<and> date_param 0 ''2025-01-15'' = Inr ''1736899200''
   \<and> date_param (- 21600) ''2025-01-15T00:00:00Z'' = Inr ''1736899200''
   \<and> map params (snd (cc_list_project_photos
         \<lparr>API_TOKEN = ''token'', local_offset = - 21600, remote = (\<lambda>req. Response 200 ''[]'' (Inr (JList [])))\<rparr>
         \<lparr>ListProjectPhotosInput.project_id = ''42'', start_date = Some ''2025-01-15'', end_date = None,
            user_id = None, tag_id = None, page = 1, per_page = 25\<rparr>))
       = [[(''page'', JInt 1), (''per_page'', JInt 25), (''start_date'', JStr ''1736920800'')]]"
proof -
  have west: "date_param (- 21600) ''2025-01-15'' = Inr ''1736920800''"
    by code_simp
  have utc: "date_param 0 ''2025-01-15'' = Inr ''1736899200''"
    by code_simp
  have zulu: "date_param (- 21600) ''2025-01-15T00:00:00Z'' = Inr ''1736899200''"
    by code_simp
  from west have differs: "date_param (- 21600) ''2025-01-15'' \<noteq> Inr ''1736899200''"
    by simp
  have sent: "map params (snd (cc_list_project_photos
         \<lparr>API_TOKEN = ''token'', local_offset = - 21600, remote = (\<lambda>req. Response 200 ''[]'' (Inr (JList [])))\<rparr>
         \<lparr>ListProjectPhotosInput.project_id = ''42'', start_date = Some ''2025-01-15'', end_date = None,
            user_id = None, tag_id = None, page = 1, per_page = 25\<rparr>))
       = [[(''page'', JInt 1), (''per_page'', JInt 25), (''start_date'', JStr ''1736920800'')]]"
    by (simp add: cc_list_project_photos_def photos_api_params_def opt_param_def west exn_bind_def
        api_get_def get_headers_def)
  from west differs utc zulu sent show ?thesis by simp
qed

subsection \<open>Addresses\<close>

text \<open>
  C2. The claim is that an address whose five fields are all empty or absent formats as
  \<open>No address\<close>, never as the empty string. The guard \<open>if not addr\<close> only sees \<open>None\<close> and
  the empty dict: a dict that has the five keys, each with an empty value, passes it and
  formats as the empty string.
\<close>

theorem format_address_all_fields_empty:
  "format_address (JObj [(''street_address_1'', JStr []), (''street_address_2'', JStr []),
      (''city'', JStr []), (''state'', JStr []), (''postal_code'', JStr [])]) = Inr []
   \<and> format_address (JObj [(''street_address_1'', JNull), (''city'', JNull)]) = Inr []
   \<and> format_address (JObj []) = Inr ''No address''
   \<and> format_address JNull = Inr ''No address''"
proof -
  have "format_address (JObj [(''street_address_1'', JStr []), (''street_address_2'', JStr []),
      (''city'', JStr []), (''state'', JStr []), (''postal_code'', JStr [])]) = Inr []"
    by code_simp
  moreover have "format_address (JObj [(''street_address_1'', JNull), (''city'', JNull)]) = Inr []"
    by code_simp
  moreover have "format_address (JObj []) = Inr ''No address''"
    by (simp add: format_address_def)
  moreover have "format_address JNull = Inr ''No address''"
    by (simp add: format_address_def)
  ultimately show ?thesis by simp
qed


lemma exn_map_py_get_dict:
  "exn_map (\<lambda>k. py_get (JObj kvs) k d) ks
     = Inr (map (\<lambda>k. case map_of kvs k of Some v \<Rightarrow> v | None \<Rightarrow> d) ks)"
  by (induction ks) simp_all

lemma join_items_strs: "join_items i (map JStr ss) = Inr ss"
  by (induction ss arbitrary: i) simp_all

lemma py_join_strs: "py_join sep (map JStr ss) = Inr (str_join sep ss)"
  by (simp add: py_join_def join_items_strs)

lemma filter_truthy_lookup:
  assumes "\<forall>k\<in>set ks. map_of kvs k = None \<or> map_of kvs k = Some JNull \<or> (\<exists>s. map_of kvs k = Some (JStr s))"
  shows "filter truthy (map (\<lambda>k. case map_of kvs k of Some v \<Rightarrow> v | None \<Rightarrow> JStr []) ks)
           = map JStr (filter (\<lambda>s. s \<noteq> [])
               (map (\<lambda>k. case map_of kvs k of Some (JStr s) \<Rightarrow> s | _ \<Rightarrow> []) ks))"
  using assms
proof (induction ks)
  case Nil
  show ?case by simp
next
  case (Cons k ks)
  from Cons.prems have
    "map_of kvs k = None \<or> map_of kvs k = Some JNull \<or> (\<exists>s. map_of kvs k = Some (JStr s))"
    by simp
  moreover from Cons have
    "filter truthy (map (\<lambda>k. case map_of kvs k of Some v \<Rightarrow> v | None \<Rightarrow> JStr []) ks)
       = map JStr (filter (\<lambda>s. s \<noteq> [])
           (map (\<lambda>k. case map_of kvs k of Some (JStr s) \<Rightarrow> s | _ \<Rightarrow> []) ks))"
    by simp
  ultimately show ?case by auto
qed

text \<open>
  The other half of the description of \<open>_format_address\<close> holds: on a non-empty dict
  whose address fields are absent, null or strings, the result is the non-empty fields
  joined with a comma and a space (the empty string when there is none).
\<close>

lemma format_address_joins_nonempty_fields:
  assumes "kvs \<noteq> []"
    and "\<forall>k\<in>set address_keys. map_of kvs k = None \<or> map_of kvs k = Some JNull \<or> (\<exists>s. map_of kvs k = Some (JStr s))"
  shows "format_address (JObj kvs) =
           Inr (str_join '', ''
                  (filter (\<lambda>s. s \<noteq> [])
                     (map (\<lambda>k. case map_of kvs k of Some (JStr s) \<Rightarrow> s | _ \<Rightarrow> []) address_keys)))"
proof -
  let ?vals = "map (\<lambda>k. case map_of kvs k of Some v \<Rightarrow> v | None \<Rightarrow> JStr []) address_keys"
  let ?strs = "filter (\<lambda>s. s \<noteq> [])
                 (map (\<lambda>k. case map_of kvs k of Some (JStr s) \<Rightarrow> s | _ \<Rightarrow> []) address_keys)"
  have parts: "exn_map (\<lambda>k. py_get (JObj kvs) k (JStr [])) address_keys = Inr ?vals"
    by (rule exn_map_py_get_dict)
  have "format_address (JObj kvs) = py_join '', '' (filter truthy ?vals)"
    unfolding format_address_def parts using assms(1) by (simp add: exn_bind_def)
  also have "\<dots> = py_join '', '' (map JStr ?strs)"
    by (simp only: filter_truthy_lookup [OF assms(2)])
  also have "\<dots> = Inr (str_join '', '' ?strs)"
    by (rule py_join_strs)
  finally show ?thesis .
qed

subsection \<open>Image URLs\<close>

lemma entry_url_dict:
  "entry_url (JObj e) =
     Inr (case map_of e ''url'' of
            Some a \<Rightarrow> if truthy a then a else (case map_of e ''uri'' of Some b \<Rightarrow> b | None \<Rightarrow> JStr [])
          | None \<Rightarrow> (case map_of e ''uri'' of Some b \<Rightarrow> b | None \<Rightarrow> JStr []))"
  by (simp add: entry_url_def exn_bind_def split: option.splits)

lemma find_size_skip:
  "\<forall>u\<in>set pre. other_type sz u \<Longrightarrow> find_size (pre @ rest) sz = find_size rest sz"
proof (induction pre)
  case Nil
  then show ?case by simp
next
  case (Cons u pre)
  then obtain kvs where u: "u = JObj kvs" and t: "map_of kvs ''type'' \<noteq> Some (JStr sz)"
    by (auto simp: other_type_def split: json.splits)
  from t have "(case map_of kvs ''type'' of None \<Rightarrow> JNull | Some v \<Rightarrow> v) \<noteq> JStr sz"
    by (auto split: option.splits)
  with Cons u show ?case by (simp add: exn_bind_def)
qed

lemma find_size_hit:
  "map_of e ''type'' = Some (JStr sz) \<Longrightarrow>
     find_size (JObj e # rest) sz = exn_bind (entry_url (JObj e)) (\<lambda>u. Inr (Some u))"
  by (simp add: exn_bind_def)

lemma find_size_none:
  "\<forall>u\<in>set us. other_type sz u \<Longrightarrow> find_size us sz = Inr None"
  using find_size_skip [of us sz "[]"] by simp

text \<open>
  C7, as stated, at an entry whose \<open>url\<close> is present but empty: the claim lets the first
  present key win, which would give the empty \<open>url\<close>; the code's \<open>or\<close> passes on to
  \<open>uri\<close> and returns \<open>C\<close>.
\<close>

theorem get_photo_url_empty_url_counterexample:
  "get_photo_url (JList [JObj [(''type'', JStr ''web''), (''url'', JStr []), (''uri'', JStr ''C'')]]) ''web''
     = Inr (JStr ''C'')
   \<and> get_photo_url (JList [JObj [(''type'', JStr ''web''), (''url'', JStr []), (''uri'', JStr ''C'')]]) ''web''
     \<noteq> Inr (JStr [])"
proof -
  have "get_photo_url (JList [JObj [(''type'', JStr ''web''), (''url'', JStr []), (''uri'', JStr ''C'')]]) ''web''
     = Inr (JStr ''C'')"
    by code_simp
  then show ?thesis by simp
qed
text \<open>
  C7, amended. Over a photo's URI list, \<open>_get_photo_url\<close> returns the address of the first
  entry whose type equals the requested size; with no such entry it falls back to the
  first entry; on the empty list it returns \<open>No URL available\<close>. The address of an entry
  is its \<open>url\<close> when that is present and non-empty (truthy), otherwise its \<open>uri\<close>, or the
  empty string when \<open>uri\<close> is absent too: the first non-empty of the two keys wins, not
  the first present.
\<close>

theorem get_photo_url_selection:
  "get_photo_url (JList []) sz = Inr (JStr ''No URL available'')
   \<and> ((\<forall>u\<in>set pre. other_type sz u) \<and> map_of e ''type'' = Some (JStr sz)
        \<longrightarrow> get_photo_url (JList (pre @ JObj e # post)) sz = entry_url (JObj e))
   \<and> ((\<forall>u\<in>set (JObj f # rest). other_type sz u)
        \<longrightarrow> get_photo_url (JList (JObj f # rest)) sz = entry_url (JObj f))
   \<and> entry_url (JObj e) =
        Inr (case map_of e ''url'' of
               Some a \<Rightarrow> if truthy a then a else (case map_of e ''uri'' of Some b \<Rightarrow> b | None \<Rightarrow> JStr [])
             | None \<Rightarrow> (case map_of e ''uri'' of Some b \<Rightarrow> b | None \<Rightarrow> JStr []))"
proof -
  have none: "get_photo_url (JList []) sz = Inr (JStr ''No URL available'')"
    by (simp add: get_photo_url_def py_or_def exn_bind_def)
  have hit: "get_photo_url (JList (pre @ JObj e # post)) sz = entry_url (JObj e)"
    if "\<forall>u\<in>set pre. other_type sz u" and "map_of e ''type'' = Some (JStr sz)"
  proof -
    have "find_size (pre @ JObj e # post) sz = exn_bind (entry_url (JObj e)) (\<lambda>u. Inr (Some u))"
      using that find_size_skip [of pre sz "JObj e # post"] find_size_hit [of e sz post] by simp
    then show ?thesis
      by (simp add: get_photo_url_def py_or_def exn_bind_def entry_url_dict)
  qed
  have fallback: "get_photo_url (JList (JObj f # rest)) sz = entry_url (JObj f)"
    if "\<forall>u\<in>set (JObj f # rest). other_type sz u"
  proof -
    have "find_size (JObj f # rest) sz = Inr None"
      using that by (rule find_size_none)
    then show ?thesis
      by (simp add: get_photo_url_def py_or_def exn_bind_def)
  qed
  from none hit fallback entry_url_dict [of e] show ?thesis by blast
qed

text \<open>The three lists of the specification, through the theorem.\<close>

theorem get_photo_url_selection_witness:
  "get_photo_url (JList [JObj [(''type'', JStr ''thumbnail''), (''url'', JStr ''A'')],
                         JObj [(''type'', JStr ''web''), (''url'', JStr ''B'')]]) ''web'' = Inr (JStr ''B'')
   \<and> get_photo_url (JList [JObj [(''type'', JStr ''thumbnail''), (''uri'', JStr ''C'')]]) ''web'' = Inr (JStr ''C'')
   \<and> get_photo_url (JList []) ''web'' = Inr (JStr ''No URL available'')"
  using get_photo_url_selection [of "''web''"
          "[JObj [(''type'', JStr ''thumbnail''), (''url'', JStr ''A'')]]"
          "[(''type'', JStr ''web''), (''url'', JStr ''B'')]" "[]"
          "[(''type'', JStr ''thumbnail''), (''uri'', JStr ''C'')]" "[]"]
  by (simp add: other_type_def entry_url_def exn_bind_def)

subsection \<open>Validation of the page size\<close>

lemma rejects_iff: "rejects validate handler a = (\<exists>errs. validate a = Inl errs)"
  by (auto simp: rejects_def invoke_def split: sum.splits prod.splits invocation.splits)

lemma search_rejects_per_page:
  "n < 1 \<or> 100 < n \<Longrightarrow>
     \<exists>errs. validate_SearchProjectsInput (a\<lparr>SearchProjectsArgs.per_page := Some n\<rparr>) = Inl errs"
  by (auto simp: validate_SearchProjectsInput_def int_field_def Let_def split: sum.split list.split)

lemma search_accepts_per_page:
  "1 \<le> n \<Longrightarrow> n \<le> 100 \<Longrightarrow>
     validate_SearchProjectsInput (a\<lparr>SearchProjectsArgs.per_page := None\<rparr>) = Inr p \<Longrightarrow>
     validate_SearchProjectsInput (a\<lparr>SearchProjectsArgs.per_page := Some n\<rparr>) = Inr (p\<lparr>SearchProjectsInput.per_page := n\<rparr>)"
  by (auto simp: validate_SearchProjectsInput_def int_field_def Let_def split: sum.splits list.splits)

lemma search_default_per_page:
  "SearchProjectsArgs.per_page a = None \<Longrightarrow> validate_SearchProjectsInput a = Inr p \<Longrightarrow> SearchProjectsInput.per_page p = 25"
  by (auto simp: validate_SearchProjectsInput_def int_field_def Let_def DEFAULT_PER_PAGE_def split: sum.splits list.splits)

lemma photos_rejects_per_page:
  "n < 1 \<or> 100 < n \<Longrightarrow>
     \<exists>errs. validate_ListProjectPhotosInput (a\<lparr>ListProjectPhotosArgs.per_page := Some n\<rparr>) = Inl errs"
  by (auto simp: validate_ListProjectPhotosInput_def int_field_def Let_def split: sum.split list.split)

lemma photos_accepts_per_page:
  "1 \<le> n \<Longrightarrow> n \<le> 100 \<Longrightarrow>
     validate_ListProjectPhotosInput (a\<lparr>ListProjectPhotosArgs.per_page := None\<rparr>) = Inr p \<Longrightarrow>
     validate_ListProjectPhotosInput (a\<lparr>ListProjectPhotosArgs.per_page := Some n\<rparr>) = Inr (p\<lparr>ListProjectPhotosInput.per_page := n\<rparr>)"
  by (auto simp: validate_ListProjectPhotosInput_def int_field_def Let_def split: sum.splits list.splits)

lemma photos_default_per_page:
  "ListProjectPhotosArgs.per_page a = None \<Longrightarrow> validate_ListProjectPhotosInput a = Inr p \<Longrightarrow> ListProjectPhotosInput.per_page p = 25"
  by (auto simp: validate_ListProjectPhotosInput_def int_field_def Let_def DEFAULT_PER_PAGE_def split: sum.splits list.splits)

lemma comments_rejects_per_page:
  "n < 1 \<or> 100 < n \<Longrightarrow>
     \<exists>errs. validate_ListProjectCommentsInput (a\<lparr>ListProjectCommentsArgs.per_page := Some n\<rparr>) = Inl errs"
  by (auto simp: validate_ListProjectCommentsInput_def int_field_def Let_def split: sum.split list.split)

lemma comments_accepts_per_page:
  "1 \<le> n \<Longrightarrow> n \<le> 100 \<Longrightarrow>
     validate_ListProjectCommentsInput (a\<lparr>ListProjectCommentsArgs.per_page := None\<rparr>) = Inr p \<Longrightarrow>
     validate_ListProjectCommentsInput (a\<lparr>ListProjectCommentsArgs.per_page := Some n\<rparr>) = Inr (p\<lparr>ListProjectCommentsInput.per_page := n\<rparr>)"
  by (auto simp: validate_ListProjectCommentsInput_def int_field_def Let_def split: sum.splits list.splits)

lemma comments_default_per_page:
  "ListProjectCommentsArgs.per_page a = None \<Longrightarrow> validate_ListProjectCommentsInput a = Inr p \<Longrightarrow> ListProjectCommentsInput.per_page p = 25"
  by (auto simp: validate_ListProjectCommentsInput_def int_field_def Let_def DEFAULT_PER_PAGE_def split: sum.splits list.splits)

lemma users_rejects_per_page:
  "n < 1 \<or> 100 < n \<Longrightarrow>
     \<exists>errs. validate_ListUsersInput (a\<lparr>ListUsersArgs.per_page := Some n\<rparr>) = Inl errs"
  by (auto simp: validate_ListUsersInput_def int_field_def Let_def split: sum.split list.split)

lemma users_accepts_per_page:
  "1 \<le> n \<Longrightarrow> n \<le> 100 \<Longrightarrow>
     validate_ListUsersInput (a\<lparr>ListUsersArgs.per_page := None\<rparr>) = Inr p \<Longrightarrow>
     validate_ListUsersInput (a\<lparr>ListUsersArgs.per_page := Some n\<rparr>) = Inr (p\<lparr>ListUsersInput.per_page := n\<rparr>)"
  by (auto simp: validate_ListUsersInput_def int_field_def Let_def split: sum.splits list.splits)

lemma users_default_per_page:
  "ListUsersArgs.per_page a = None \<Longrightarrow> validate_ListUsersInput a = Inr p \<Longrightarrow> ListUsersInput.per_page p = 100"
  by (auto simp: validate_ListUsersInput_def int_field_def Let_def split: sum.splits list.splits)

lemma tags_rejects_per_page:
  "n < 1 \<or> 100 < n \<Longrightarrow>
     \<exists>errs. validate_ListTagsInput (a\<lparr>ListTagsArgs.per_page := Some n\<rparr>) = Inl errs"
  by (auto simp: validate_ListTagsInput_def int_field_def Let_def split: sum.split list.split)

lemma tags_accepts_per_page:
  "1 \<le> n \<Longrightarrow> n \<le> 100 \<Longrightarrow>
     validate_ListTagsInput (a\<lparr>ListTagsArgs.per_page := None\<rparr>) = Inr p \<Longrightarrow>
     validate_ListTagsInput (a\<lparr>ListTagsArgs.per_page := Some n\<rparr>) = Inr (p\<lparr>ListTagsInput.per_page := n\<rparr>)"
  by (auto simp: validate_ListTagsInput_def int_field_def Let_def split: sum.splits list.splits)

lemma tags_default_per_page:
  "ListTagsArgs.per_page a = None \<Longrightarrow> validate_ListTagsInput a = Inr p \<Longrightarrow> ListTagsInput.per_page p = 100"
  by (auto simp: validate_ListTagsInput_def int_field_def Let_def split: sum.splits list.splits)

lemma labels_rejects_extra:
  "x \<in> set (ListProjectLabelsArgs.extra a) \<Longrightarrow>
     \<exists>errs. validate_ListProjectLabelsInput a = Inl errs \<and> ExtraForbidden x \<in> set errs"
  by (auto simp: validate_ListProjectLabelsInput_def forbid_def Let_def split: sum.split list.split)

lemma search_example_args:
  "validate_SearchProjectsInput \<lparr>SearchProjectsArgs.query = Some ''roof'', page = None, per_page = None, extra = []\<rparr>
     = Inr \<lparr>SearchProjectsInput.query = ''roof'', page = 1, per_page = 25\<rparr>"
  by (simp add: validate_SearchProjectsInput_def required_str_def optional_str_def int_field_def forbid_def
      strip_whitespace_def is_space_def DEFAULT_PER_PAGE_def)

lemma photos_example_args:
  "validate_ListProjectPhotosInput \<lparr>ListProjectPhotosArgs.project_id = Some ''42'', start_date = None, end_date = None, user_id = None, tag_id = None, page = None, per_page = None, extra = []\<rparr>
     = Inr \<lparr>ListProjectPhotosInput.project_id = ''42'', start_date = None, end_date = None, user_id = None, tag_id = None, page = 1, per_page = 25\<rparr>"
  by (simp add: validate_ListProjectPhotosInput_def required_str_def optional_str_def int_field_def forbid_def
      strip_whitespace_def is_space_def DEFAULT_PER_PAGE_def)

lemma comments_example_args:
  "validate_ListProjectCommentsInput \<lparr>ListProjectCommentsArgs.project_id = Some ''42'', page = None, per_page = None, extra = []\<rparr>
     = Inr \<lparr>ListProjectCommentsInput.project_id = ''42'', page = 1, per_page = 25\<rparr>"
  by (simp add: validate_ListProjectCommentsInput_def required_str_def optional_str_def int_field_def forbid_def
      strip_whitespace_def is_space_def DEFAULT_PER_PAGE_def)

lemma users_example_args:
  "validate_ListUsersInput \<lparr>ListUsersArgs.page = None, per_page = None, extra = []\<rparr>
     = Inr \<lparr>ListUsersInput.page = 1, per_page = 100\<rparr>"
  by (simp add: validate_ListUsersInput_def required_str_def optional_str_def int_field_def forbid_def
      strip_whitespace_def is_space_def)

lemma tags_example_args:
  "validate_ListTagsInput \<lparr>ListTagsArgs.page = None, per_page = None, extra = []\<rparr>
     = Inr \<lparr>ListTagsInput.page = 1, per_page = 100\<rparr>"
  by (simp add: validate_ListTagsInput_def required_str_def optional_str_def int_field_def forbid_def
      strip_whitespace_def is_space_def)

text \<open>
  C5, as stated, at project label listing: its input model declares no \<open>per_page\<close>, so a
  call that supplies one, the boundary value 1 as any other, is rejected as an extra field;
  the same call without it is accepted.
\<close>

theorem labels_rejects_per_page_counterexample:
  "rejects validate_ListProjectLabelsInput
     (cc_list_project_labels
        \<lparr>API_TOKEN = ''token'', local_offset = 0, remote = (\<lambda>req. Response 200 ''[]'' (Inr (JList [])))\<rparr>)
     \<lparr>ListProjectLabelsArgs.project_id = Some ''42'', extra = [''per_page'']\<rparr>
   \<and> validate_ListProjectLabelsInput \<lparr>ListProjectLabelsArgs.project_id = Some ''42'', extra = [''per_page'']\<rparr>
       = Inl [ExtraForbidden ''per_page'']
   \<and> validate_ListProjectLabelsInput \<lparr>ListProjectLabelsArgs.project_id = Some ''42'', extra = []\<rparr>
       = Inr \<lparr>ListProjectLabelsInput.project_id = ''42''\<rparr>"
  by (simp add: rejects_iff validate_ListProjectLabelsInput_def required_str_def forbid_def errors_of_def
      strip_whitespace_def is_space_def)

text \<open>
  C5, amended. For the five list operations whose input model has pagination fields
  (project search, project photos, project comments, users, tags), an invocation with
  \<open>per_page = 0\<close> or \<open>per_page = 101\<close> ends in a \<open>ValidationError\<close> with no request sent,
  and \<open>per_page = 1\<close> and \<open>per_page = 100\<close> are accepted whenever the other arguments are
  valid. Project label listing has no \<open>per_page\<close> field and rejects every call that
  supplies one.
\<close>

theorem per_page_bounds:
  "rejects validate_SearchProjectsInput (cc_search_projects env) (a1\<lparr>SearchProjectsArgs.per_page := Some 0\<rparr>)
   \<and> rejects validate_SearchProjectsInput (cc_search_projects env) (a1\<lparr>SearchProjectsArgs.per_page := Some 101\<rparr>)
   \<and> (validate_SearchProjectsInput (a1\<lparr>SearchProjectsArgs.per_page := None\<rparr>) = Inr p1 \<longrightarrow>
        validate_SearchProjectsInput (a1\<lparr>SearchProjectsArgs.per_page := Some 1\<rparr>) = Inr (p1\<lparr>SearchProjectsInput.per_page := 1\<rparr>)
        \<and> validate_SearchProjectsInput (a1\<lparr>SearchProjectsArgs.per_page := Some 100\<rparr>) = Inr (p1\<lparr>SearchProjectsInput.per_page := 100\<rparr>))
   \<and> rejects validate_ListProjectPhotosInput (cc_list_project_photos env) (a2\<lparr>ListProjectPhotosArgs.per_page := Some 0\<rparr>)
   \<and> rejects validate_ListProjectPhotosInput (cc_list_project_photos env) (a2\<lparr>ListProjectPhotosArgs.per_page := Some 101\<rparr>)
   \<and> (validate_ListProjectPhotosInput (a2\<lparr>ListProjectPhotosArgs.per_page := None\<rparr>) = Inr p2 \<longrightarrow>
        validate_ListProjectPhotosInput (a2\<lparr>ListProjectPhotosArgs.per_page := Some 1\<rparr>) = Inr (p2\<lparr>ListProjectPhotosInput.per_page := 1\<rparr>)
        \<and> validate_ListProjectPhotosInput (a2\<lparr>ListProjectPhotosArgs.per_page := Some 100\<rparr>) = Inr (p2\<lparr>ListProjectPhotosInput.per_page := 100\<rparr>))
   \<and> rejects validate_ListProjectCommentsInput (cc_list_project_comments env) (a3\<lparr>ListProjectCommentsArgs.per_page := Some 0\<rparr>)
   \<and> rejects validate_ListProjectCommentsInput (cc_list_project_comments env) (a3\<lparr>ListProjectCommentsArgs.per_page := Some 101\<rparr>)
   \<and> (validate_ListProjectCommentsInput (a3\<lparr>ListProjectCommentsArgs.per_page := None\<rparr>) = Inr p3 \<longrightarrow>
        validate_ListProjectCommentsInput (a3\<lparr>ListProjectCommentsArgs.per_page := Some 1\<rparr>) = Inr (p3\<lparr>ListProjectCommentsInput.per_page := 1\<rparr>)
        \<and> validate_ListProjectCommentsInput (a3\<lparr>ListProjectCommentsArgs.per_page := Some 100\<rparr>) = Inr (p3\<lparr>ListProjectCommentsInput.per_page := 100\<rparr>))
   \<and> rejects validate_ListUsersInput (cc_list_users env) (a4\<lparr>ListUsersArgs.per_page := Some 0\<rparr>)
   \<and> rejects validate_ListUsersInput (cc_list_users env) (a4\<lparr>ListUsersArgs.per_page := Some 101\<rparr>)
   \<and> (validate_ListUsersInput (a4\<lparr>ListUsersArgs.per_page := None\<rparr>) = Inr p4 \<longrightarrow>
        validate_ListUsersInput (a4\<lparr>ListUsersArgs.per_page := Some 1\<rparr>) = Inr (p4\<lparr>ListUsersInput.per_page := 1\<rparr>)
        \<and> validate_ListUsersInput (a4\<lparr>ListUsersArgs.per_page := Some 100\<rparr>) = Inr (p4\<lparr>ListUsersInput.per_page := 100\<rparr>))
   \<and> rejects validate_ListTagsInput (cc_list_tags env) (a5\<lparr>ListTagsArgs.per_page := Some 0\<rparr>)
   \<and> rejects validate_ListTagsInput (cc_list_tags env) (a5\<lparr>ListTagsArgs.per_page := Some 101\<rparr>)
   \<and> (validate_ListTagsInput (a5\<lparr>ListTagsArgs.per_page := None\<rparr>) = Inr p5 \<longrightarrow>
        validate_ListTagsInput (a5\<lparr>ListTagsArgs.per_page := Some 1\<rparr>) = Inr (p5\<lparr>ListTagsInput.per_page := 1\<rparr>)
        \<and> validate_ListTagsInput (a5\<lparr>ListTagsArgs.per_page := Some 100\<rparr>) = Inr (p5\<lparr>ListTagsInput.per_page := 100\<rparr>))
   \<and> (''per_page'' \<in> set (ListProjectLabelsArgs.extra a6) \<longrightarrow>
        rejects validate_ListProjectLabelsInput (cc_list_project_labels env) a6)"

proof -
  have m1: "rejects validate_SearchProjectsInput (cc_search_projects env) (a1\<lparr>SearchProjectsArgs.per_page := Some 0\<rparr>)
   \<and> rejects validate_SearchProjectsInput (cc_search_projects env) (a1\<lparr>SearchProjectsArgs.per_page := Some 101\<rparr>)
   \<and> (validate_SearchProjectsInput (a1\<lparr>SearchProjectsArgs.per_page := None\<rparr>) = Inr p1 \<longrightarrow>
        validate_SearchProjectsInput (a1\<lparr>SearchProjectsArgs.per_page := Some 1\<rparr>) = Inr (p1\<lparr>SearchProjectsInput.per_page := 1\<rparr>)
        \<and> validate_SearchProjectsInput (a1\<lparr>SearchProjectsArgs.per_page := Some 100\<rparr>) = Inr (p1\<lparr>SearchProjectsInput.per_page := 100\<rparr>))"
    using search_rejects_per_page [of 0 a1] search_rejects_per_page [of 101 a1]
      search_accepts_per_page [of 1 a1 p1] search_accepts_per_page [of 100 a1 p1]
    by (simp add: rejects_iff)
  have m2: "rejects validate_ListProjectPhotosInput (cc_list_project_photos env) (a2\<lparr>ListProjectPhotosArgs.per_page := Some 0\<rparr>)
   \<and> rejects validate_ListProjectPhotosInput (cc_list_project_photos env) (a2\<lparr>ListProjectPhotosArgs.per_page := Some 101\<rparr>)
   \<and> (validate_ListProjectPhotosInput (a2\<lparr>ListProjectPhotosArgs.per_page := None\<rparr>) = Inr p2 \<longrightarrow>
        validate_ListProjectPhotosInput (a2\<lparr>ListProjectPhotosArgs.per_page := Some 1\<rparr>) = Inr (p2\<lparr>ListProjectPhotosInput.per_page := 1\<rparr>)
        \<and> validate_ListProjectPhotosInput (a2\<lparr>ListProjectPhotosArgs.per_page := Some 100\<rparr>) = Inr (p2\<lparr>ListProjectPhotosInput.per_page := 100\<rparr>))"
    using photos_rejects_per_page [of 0 a2] photos_rejects_per_page [of 101 a2]
      photos_accepts_per_page [of 1 a2 p2] photos_accepts_per_page [of 100 a2 p2]
    by (simp add: rejects_iff)
  have m3: "rejects validate_ListProjectCommentsInput (cc_list_project_comments env) (a3\<lparr>ListProjectCommentsArgs.per_page := Some 0\<rparr>)
   \<and> rejects validate_ListProjectCommentsInput (cc_list_project_comments env) (a3\<lparr>ListProjectCommentsArgs.per_page := Some 101\<rparr>)
   \<and> (validate_ListProjectCommentsInput (a3\<lparr>ListProjectCommentsArgs.per_page := None\<rparr>) = Inr p3 \<longrightarrow>
        validate_ListProjectCommentsInput (a3\<lparr>ListProjectCommentsArgs.per_page := Some 1\<rparr>) = Inr (p3\<lparr>ListProjectCommentsInput.per_page := 1\<rparr>)
        \<and> validate_ListProjectCommentsInput (a3\<lparr>ListProjectCommentsArgs.per_page := Some 100\<rparr>) = Inr (p3\<lparr>ListProjectCommentsInput.per_page := 100\<rparr>))"
    using comments_rejects_per_page [of 0 a3] comments_rejects_per_page [of 101 a3]
      comments_accepts_per_page [of 1 a3 p3] comments_accepts_per_page [of 100 a3 p3]
    by (simp add: rejects_iff)
  have m4: "rejects validate_ListUsersInput (cc_list_users env) (a4\<lparr>ListUsersArgs.per_page := Some 0\<rparr>)
   \<and> rejects validate_ListUsersInput (cc_list_users env) (a4\<lparr>ListUsersArgs.per_page := Some 101\<rparr>)
   \<and> (validate_ListUsersInput (a4\<lparr>ListUsersArgs.per_page := None\<rparr>) = Inr p4 \<longrightarrow>
        validate_ListUsersInput (a4\<lparr>ListUsersArgs.per_page := Some 1\<rparr>) = Inr (p4\<lparr>ListUsersInput.per_page := 1\<rparr>)
        \<and> validate_ListUsersInput (a4\<lparr>ListUsersArgs.per_page := Some 100\<rparr>) = Inr (p4\<lparr>ListUsersInput.per_page := 100\<rparr>))"
    using users_rejects_per_page [of 0 a4] users_rejects_per_page [of 101 a4]
      users_accepts_per_page [of 1 a4 p4] users_accepts_per_page [of 100 a4 p4]
    by (simp add: rejects_iff)
  have m5: "rejects validate_ListTagsInput (cc_list_tags env) (a5\<lparr>ListTagsArgs.per_page := Some 0\<rparr>)
   \<and> rejects validate_ListTagsInput (cc_list_tags env) (a5\<lparr>ListTagsArgs.per_page := Some 101\<rparr>)
   \<and> (validate_ListTagsInput (a5\<lparr>ListTagsArgs.per_page := None\<rparr>) = Inr p5 \<longrightarrow>
        validate_ListTagsInput (a5\<lparr>ListTagsArgs.per_page := Some 1\<rparr>) = Inr (p5\<lparr>ListTagsInput.per_page := 1\<rparr>)
        \<and> validate_ListTagsInput (a5\<lparr>ListTagsArgs.per_page := Some 100\<rparr>) = Inr (p5\<lparr>ListTagsInput.per_page := 100\<rparr>))"
    using tags_rejects_per_page [of 0 a5] tags_rejects_per_page [of 101 a5]
      tags_accepts_per_page [of 1 a5 p5] tags_accepts_per_page [of 100 a5 p5]
    by (simp add: rejects_iff)
  have m6: "(''per_page'' \<in> set (ListProjectLabelsArgs.extra a6) \<longrightarrow>
        rejects validate_ListProjectLabelsInput (cc_list_project_labels env) a6)"
    using labels_rejects_extra [of "''per_page''" a6] by (auto simp: rejects_iff)
  from m1 m2 m3 m4 m5 m6 show ?thesis by blast
qed

text \<open>The boundary values on one valid call of each paginated list operation.\<close>

theorem per_page_bounds_witness:
  "validate_SearchProjectsInput \<lparr>SearchProjectsArgs.query = Some ''roof'', page = None, per_page = Some 1, extra = []\<rparr>
     = Inr \<lparr>SearchProjectsInput.query = ''roof'', page = 1, per_page = 1\<rparr>
   \<and> validate_SearchProjectsInput \<lparr>SearchProjectsArgs.query = Some ''roof'', page = None, per_page = Some 100, extra = []\<rparr>
     = Inr \<lparr>SearchProjectsInput.query = ''roof'', page = 1, per_page = 100\<rparr>
   \<and> validate_ListProjectPhotosInput \<lparr>ListProjectPhotosArgs.project_id = Some ''42'', start_date = None, end_date = None, user_id = None, tag_id = None, page = None, per_page = Some 1, extra = []\<rparr>
     = Inr \<lparr>ListProjectPhotosInput.project_id = ''42'', start_date = None, end_date = None, user_id = None, tag_id = None, page = 1, per_page = 1\<rparr>
   \<and> validate_ListProjectPhotosInput \<lparr>ListProjectPhotosArgs.project_id = Some ''42'', start_date = None, end_date = None, user_id = None, tag_id = None, page = None, per_page = Some 100, extra = []\<rparr>
     = Inr \<lparr>ListProjectPhotosInput.project_id = ''42'', start_date = None, end_date = None, user_id = None, tag_id = None, page = 1, per_page = 100\<rparr>
   \<and> validate_ListProjectCommentsInput \<lparr>ListProjectCommentsArgs.project_id = Some ''42'', page = None, per_page = Some 1, extra = []\<rparr>
     = Inr \<lparr>ListProjectCommentsInput.project_id = ''42'', page = 1, per_page = 1\<rparr>
   \<and> validate_ListProjectCommentsInput \<lparr>ListProjectCommentsArgs.project_id = Some ''42'', page = None, per_page = Some 100, extra = []\<rparr>
     = Inr \<lparr>ListProjectCommentsInput.project_id = ''42'', page = 1, per_page = 100\<rparr>
   \<and> validate_ListUsersInput \<lparr>ListUsersArgs.page = None, per_page = Some 1, extra = []\<rparr>
     = Inr \<lparr>ListUsersInput.page = 1, per_page = 1\<rparr>
   \<and> validate_ListUsersInput \<lparr>ListUsersArgs.page = None, per_page = Some 100, extra = []\<rparr>
     = Inr \<lparr>ListUsersInput.page = 1, per_page = 100\<rparr>
   \<and> validate_ListTagsInput \<lparr>ListTagsArgs.page = None, per_page = Some 1, extra = []\<rparr>
     = Inr \<lparr>ListTagsInput.page = 1, per_page = 1\<rparr>
   \<and> validate_ListTagsInput \<lparr>ListTagsArgs.page = None, per_page = Some 100, extra = []\<rparr>
     = Inr \<lparr>ListTagsInput.page = 1, per_page = 100\<rparr>"
  using per_page_bounds [where ?a1.0 = "\<lparr>SearchProjectsArgs.query = Some ''roof'', page = None, per_page = None, extra = []\<rparr>"
      and ?p1.0 = "\<lparr>SearchProjectsInput.query = ''roof'', page = 1, per_page = 25\<rparr>"
      and ?a2.0 = "\<lparr>ListProjectPhotosArgs.project_id = Some ''42'', start_date = None, end_date = None, user_id = None, tag_id = None, page = None, per_page = None, extra = []\<rparr>"
      and ?p2.0 = "\<lparr>ListProjectPhotosInput.project_id = ''42'', start_date = None, end_date = None, user_id = None, tag_id = None, page = 1, per_page = 25\<rparr>"
      and ?a3.0 = "\<lparr>ListProjectCommentsArgs.project_id = Some ''42'', page = None, per_page = None, extra = []\<rparr>"
      and ?p3.0 = "\<lparr>ListProjectCommentsInput.project_id = ''42'', page = 1, per_page = 25\<rparr>"
      and ?a4.0 = "\<lparr>ListUsersArgs.page = None, per_page = None, extra = []\<rparr>"
      and ?p4.0 = "\<lparr>ListUsersInput.page = 1, per_page = 100\<rparr>"
      and ?a5.0 = "\<lparr>ListTagsArgs.page = None, per_page = None, extra = []\<rparr>"
      and ?p5.0 = "\<lparr>ListTagsInput.page = 1, per_page = 100\<rparr>"]
    search_example_args photos_example_args comments_example_args users_example_args tags_example_args
  by simp

subsection \<open>Default page sizes\<close>

text \<open>
  C10. When the caller omits \<open>per_page\<close>, the validated page size is 25
  (\<open>DEFAULT_PER_PAGE\<close>) for project search, project photo listing and project comment
  listing, and 100 for user listing and tag listing. The input model of project label
  listing declares no pagination field: a call that supplies \<open>page\<close> or \<open>per_page\<close> is
  rejected.
\<close>

theorem default_per_page:
  "DEFAULT_PER_PAGE = 25
   \<and> (SearchProjectsArgs.per_page a1 = None \<and> validate_SearchProjectsInput a1 = Inr p1
        \<longrightarrow> SearchProjectsInput.per_page p1 = 25)
   \<and> (ListProjectPhotosArgs.per_page a2 = None \<and> validate_ListProjectPhotosInput a2 = Inr p2
        \<longrightarrow> ListProjectPhotosInput.per_page p2 = 25)
   \<and> (ListProjectCommentsArgs.per_page a3 = None \<and> validate_ListProjectCommentsInput a3 = Inr p3
        \<longrightarrow> ListProjectCommentsInput.per_page p3 = 25)
   \<and> (ListUsersArgs.per_page a4 = None \<and> validate_ListUsersInput a4 = Inr p4
        \<longrightarrow> ListUsersInput.per_page p4 = 100)
   \<and> (ListTagsArgs.per_page a5 = None \<and> validate_ListTagsInput a5 = Inr p5
        \<longrightarrow> ListTagsInput.per_page p5 = 100)
   \<and> (''page'' \<in> set (ListProjectLabelsArgs.extra a6) \<or> ''per_page'' \<in> set (ListProjectLabelsArgs.extra a6)
        \<longrightarrow> rejects validate_ListProjectLabelsInput (cc_list_project_labels env) a6)"

  using search_default_per_page [of a1 p1] photos_default_per_page [of a2 p2]
    comments_default_per_page [of a3 p3] users_default_per_page [of a4 p4] tags_default_per_page [of a5 p5]
    labels_rejects_extra [of "''page''" a6] labels_rejects_extra [of "''per_page''" a6]
  by (auto simp: rejects_iff DEFAULT_PER_PAGE_def)

text \<open>One call of each list operation with \<open>per_page\<close> omitted.\<close>

theorem default_per_page_witness:
  "SearchProjectsInput.per_page \<lparr>SearchProjectsInput.query = ''roof'', page = 1, per_page = 25\<rparr> = 25
   \<and> validate_SearchProjectsInput \<lparr>SearchProjectsArgs.query = Some ''roof'', page = None, per_page = None, extra = []\<rparr>
       = Inr \<lparr>SearchProjectsInput.query = ''roof'', page = 1, per_page = 25\<rparr>
   \<and> ListProjectPhotosInput.per_page \<lparr>ListProjectPhotosInput.project_id = ''42'', start_date = None, end_date = None, user_id = None, tag_id = None, page = 1, per_page = 25\<rparr> = 25
   \<and> validate_ListProjectPhotosInput \<lparr>ListProjectPhotosArgs.project_id = Some ''42'', start_date = None, end_date = None, user_id = None, tag_id = None, page = None, per_page = None, extra = []\<rparr>
       = Inr \<lparr>ListProjectPhotosInput.project_id = ''42'', start_date = None, end_date = None, user_id = None, tag_id = None, page = 1, per_page = 25\<rparr>
   \<and> ListProjectCommentsInput.per_page \<lparr>ListProjectCommentsInput.project_id = ''42'', page = 1, per_page = 25\<rparr> = 25
   \<and> validate_ListProjectCommentsInput \<lparr>ListProjectCommentsArgs.project_id = Some ''42'', page = None, per_page = None, extra = []\<rparr>
       = Inr \<lparr>ListProjectCommentsInput.project_id = ''42'', page = 1, per_page = 25\<rparr>
   \<and> ListUsersInput.per_page \<lparr>ListUsersInput.page = 1, per_page = 100\<rparr> = 100
   \<and> validate_ListUsersInput \<lparr>ListUsersArgs.page = None, per_page = None, extra = []\<rparr>
       = Inr \<lparr>ListUsersInput.page = 1, per_page = 100\<rparr>
   \<and> ListTagsInput.per_page \<lparr>ListTagsInput.page = 1, per_page = 100\<rparr> = 100
   \<and> validate_ListTagsInput \<lparr>ListTagsArgs.page = None, per_page = None, extra = []\<rparr>
       = Inr \<lparr>ListTagsInput.page = 1, per_page = 100\<rparr>
   \<and> rejects validate_ListProjectLabelsInput
       (cc_list_project_labels
          \<lparr>API_TOKEN = ''token'', local_offset = 0, remote = (\<lambda>req. Response 200 ''[]'' (Inr (JList [])))\<rparr>)
       \<lparr>ListProjectLabelsArgs.project_id = Some ''42'', extra = [''page'', ''per_page'']\<rparr>"
  using default_per_page [where ?a1.0 = "\<lparr>SearchProjectsArgs.query = Some ''roof'', page = None, per_page = None, extra = []\<rparr>"
      and ?p1.0 = "\<lparr>SearchProjectsInput.query = ''roof'', page = 1, per_page = 25\<rparr>"
      and ?a2.0 = "\<lparr>ListProjectPhotosArgs.project_id = Some ''42'', start_date = None, end_date = None, user_id = None, tag_id = None, page = None, per_page = None, extra = []\<rparr>"
      and ?p2.0 = "\<lparr>ListProjectPhotosInput.project_id = ''42'', start_date = None, end_date = None, user_id = None, tag_id = None, page = 1, per_page = 25\<rparr>"
      and ?a3.0 = "\<lparr>ListProjectCommentsArgs.project_id = Some ''42'', page = None, per_page = None, extra = []\<rparr>"
      and ?p3.0 = "\<lparr>ListProjectCommentsInput.project_id = ''42'', page = 1, per_page = 25\<rparr>"
      and ?a4.0 = "\<lparr>ListUsersArgs.page = None, per_page = None, extra = []\<rparr>"
      and ?p4.0 = "\<lparr>ListUsersInput.page = 1, per_page = 100\<rparr>"
      and ?a5.0 = "\<lparr>ListTagsArgs.page = None, per_page = None, extra = []\<rparr>"
      and ?p5.0 = "\<lparr>ListTagsInput.page = 1, per_page = 100\<rparr>"
      and ?a6.0 = "\<lparr>ListProjectLabelsArgs.project_id = Some ''42'', extra = [''page'', ''per_page'']\<rparr>"
      and env = "\<lparr>API_TOKEN = ''token'', local_offset = 0, remote = (\<lambda>req. Response 200 ''[]'' (Inr (JList [])))\<rparr>"]
    search_example_args photos_example_args comments_example_args users_example_args tags_example_args
  by simp

subsection \<open>Missing credential\<close>

lemma exn_bind_Inl: "exn_bind (Inl e) f = Inl e"
  by (simp add: exn_bind_def)

lemma exn_bind_Inr: "exn_bind (Inr v) f = f v"
  by (simp add: exn_bind_def)

lemma try_except_ValueError: "try_except (Inl (ValueError m)) = Returned (''Error: '' @ m)"
  by (simp add: try_except_def is_Exception_def handle_api_error_def)

lemma no_token_get:
  "API_TOKEN env = [] \<Longrightarrow>
     (case api_get env path ps of (r, sent) \<Rightarrow> (try_except (exn_bind r f), sent))
       = (Returned missing_token_text, [])"
  by (simp add: api_get_def get_headers_def exn_bind_def try_except_def is_Exception_def
      handle_api_error_def missing_token_text_def)

lemma no_token_post:
  "API_TOKEN env = [] \<Longrightarrow>
     (case api_post env path d of (r, sent) \<Rightarrow> (try_except (exn_bind r f), sent))
       = (Returned missing_token_text, [])"
  by (simp add: api_post_def get_headers_def exn_bind_def try_except_def is_Exception_def
      handle_api_error_def missing_token_text_def)

lemma no_token_put:
  "API_TOKEN env = [] \<Longrightarrow>
     (case api_put env path d of (r, sent) \<Rightarrow> (try_except (exn_bind r f), sent))
       = (Returned missing_token_text, [])"
  by (simp add: api_put_def get_headers_def exn_bind_def try_except_def is_Exception_def
      handle_api_error_def missing_token_text_def)

lemma cc_search_projects_no_token:
  "API_TOKEN env = [] \<Longrightarrow> cc_search_projects env p = (Returned missing_token_text, [])"
  unfolding cc_search_projects_def by (rule no_token_get)

lemma cc_get_project_no_token:
  "API_TOKEN env = [] \<Longrightarrow> cc_get_project env p = (Returned missing_token_text, [])"
  unfolding cc_get_project_def by (rule no_token_get)

lemma cc_get_photo_no_token:
  "API_TOKEN env = [] \<Longrightarrow> cc_get_photo env p = (Returned missing_token_text, [])"
  unfolding cc_get_photo_def by (rule no_token_get)

lemma cc_list_project_labels_no_token:
  "API_TOKEN env = [] \<Longrightarrow> cc_list_project_labels env p = (Returned missing_token_text, [])"
  unfolding cc_list_project_labels_def by (rule no_token_get)

lemma cc_list_project_comments_no_token:
  "API_TOKEN env = [] \<Longrightarrow> cc_list_project_comments env p = (Returned missing_token_text, [])"
  unfolding cc_list_project_comments_def by (rule no_token_get)

lemma cc_list_users_no_token:
  "API_TOKEN env = [] \<Longrightarrow> cc_list_users env p = (Returned missing_token_text, [])"
  unfolding cc_list_users_def by (rule no_token_get)

lemma cc_list_tags_no_token:
  "API_TOKEN env = [] \<Longrightarrow> cc_list_tags env p = (Returned missing_token_text, [])"
  unfolding cc_list_tags_def by (rule no_token_get)

lemma cc_add_project_comment_no_token:
  "API_TOKEN env = [] \<Longrightarrow> cc_add_project_comment env p = (Returned missing_token_text, [])"
  unfolding cc_add_project_comment_def by (rule no_token_post)

lemma cc_add_photo_tags_no_token:
  "API_TOKEN env = [] \<Longrightarrow> cc_add_photo_tags env p = (Returned missing_token_text, [])"
  unfolding cc_add_photo_tags_def by (rule no_token_post)

lemma cc_add_project_labels_no_token:
  "API_TOKEN env = [] \<Longrightarrow> cc_add_project_labels env p = (Returned missing_token_text, [])"
  unfolding cc_add_project_labels_def by (rule no_token_post)

lemma cc_update_project_notepad_no_token:
  "API_TOKEN env = [] \<Longrightarrow> cc_update_project_notepad env p = (Returned missing_token_text, [])"
  unfolding cc_update_project_notepad_def by (rule no_token_put)

lemma cc_add_photo_comment_no_token:
  "API_TOKEN env = [] \<Longrightarrow> cc_add_photo_comment env p = (Returned missing_token_text, [])"
  unfolding cc_add_photo_comment_def by (rule no_token_post)

text \<open>The date filters can only fail with a \<open>ValueError\<close>.\<close>

lemma date_param_ValueError: "date_param off d = Inl e \<Longrightarrow> \<exists>m. e = ValueError m"
  by (auto simp: date_param_def fromisoformat_def make_datetime_def exn_bind_def Let_def
      split: option.splits if_splits prod.splits sum.splits)

lemma opt_param_ValueError:
  "(\<And>s e. f s = Inl e \<Longrightarrow> \<exists>m. e = ValueError m) \<Longrightarrow> opt_param key f v = Inl e \<Longrightarrow> \<exists>m. e = ValueError m"
  by (auto simp: opt_param_def exn_bind_def split: option.splits if_splits sum.splits)

lemma photos_api_params_ValueError:
  "photos_api_params off p = Inl e \<Longrightarrow> \<exists>m. e = ValueError m"
  unfolding photos_api_params_def
  by (auto simp: exn_bind_def split: sum.splits dest!: opt_param_ValueError [rotated] dest: date_param_ValueError)

lemma cc_list_project_photos_no_token:
  assumes "API_TOKEN env = []"
  shows "cc_list_project_photos env p =
           (case photos_api_params (local_offset env) p of
              Inl e \<Rightarrow> (Returned (handle_api_error e), [])
            | Inr ps \<Rightarrow> (Returned missing_token_text, []))"
proof (cases "photos_api_params (local_offset env) p")
  case (Inl e)
  then obtain m where "e = ValueError m"
    using photos_api_params_ValueError by blast
  with Inl show ?thesis
    by (simp add: cc_list_project_photos_def try_except_ValueError handle_api_error_def)
next
  case (Inr ps)
  have "cc_list_project_photos env p =
          (case api_get env (''/projects/'' @ ListProjectPhotosInput.project_id p @ ''/photos'') ps of
             (r, sent) \<Rightarrow> (try_except (exn_bind r (list_project_photos_text p)), sent))"
    unfolding cc_list_project_photos_def Inr by simp
  also have "\<dots> = (Returned missing_token_text, [])"
    using assms by (rule no_token_get)
  finally show ?thesis using Inr by simp
qed




subsection \<open>Classified HTTP errors\<close>

lemma status_get:
  assumes "API_TOKEN env \<noteq> []" and "answers_with env status" and "status < 200 \<or> 299 < status"
  shows "\<exists>body req. (case api_get env path ps of (r, sent) \<Rightarrow> (try_except (exn_bind r f), sent))
           = (Returned (handle_api_error (HTTPStatusError status body)), [req])"
proof -
  obtain h where h: "get_headers (API_TOKEN env) = Inr h"
    using assms(1) by (simp add: get_headers_def)
  let ?req = "\<lparr>http_method = GET, url = BASE_URL @ path, headers = h, params = ps, json_body = None\<rparr>"
  obtain body decoded where "remote env ?req = Response status body decoded"
    using assms(2) unfolding answers_with_def by blast
  then have "read_reply (remote env ?req) = Inl (HTTPStatusError status body)"
    using assms(3) by (auto simp: read_reply_def)
  then have "(case api_get env path ps of (r, sent) \<Rightarrow> (try_except (exn_bind r f), sent))
           = (Returned (handle_api_error (HTTPStatusError status body)), [?req])"
    by (simp add: api_get_def h exn_bind_Inl try_except_def is_Exception_def)
  then show ?thesis by blast
qed

lemma not_found_get:
  assumes "API_TOKEN env \<noteq> []" and "answers_with env 404"
  shows "\<exists>req. (case api_get env path ps of (r, sent) \<Rightarrow> (try_except (exn_bind r f), sent))
           = (Returned ''Error: Resource not found. Check the ID is correct.'', [req])"
  using status_get [OF assms, where path = path and ps = ps and f = f] by (simp add: handle_api_error_def)

lemma rate_limit_get:
  assumes "API_TOKEN env \<noteq> []" and "answers_with env 429"
  shows "\<exists>req. (case api_get env path ps of (r, sent) \<Rightarrow> (try_except (exn_bind r f), sent))
           = (Returned ''Error: Rate limit exceeded. Wait a moment and retry.'', [req])"
  using status_get [OF assms, where path = path and ps = ps and f = f] by (simp add: handle_api_error_def)

lemma cc_get_project_not_found:
  assumes "API_TOKEN env \<noteq> []" and "answers_with env 404"
  shows "\<exists>req. cc_get_project env p = (Returned ''Error: Resource not found. Check the ID is correct.'', [req])"
  unfolding cc_get_project_def using assms by (rule not_found_get)

lemma cc_search_projects_rate_limit:
  assumes "API_TOKEN env \<noteq> []" and "answers_with env 429"
  shows "\<exists>req. cc_search_projects env p = (Returned ''Error: Rate limit exceeded. Wait a moment and retry.'', [req])"
  unfolding cc_search_projects_def using assms by (rule rate_limit_get)

lemma cc_list_project_labels_rate_limit:
  assumes "API_TOKEN env \<noteq> []" and "answers_with env 429"
  shows "\<exists>req. cc_list_project_labels env p = (Returned ''Error: Rate limit exceeded. Wait a moment and retry.'', [req])"
  unfolding cc_list_project_labels_def using assms by (rule rate_limit_get)

lemma cc_list_project_comments_rate_limit:
  assumes "API_TOKEN env \<noteq> []" and "answers_with env 429"
  shows "\<exists>req. cc_list_project_comments env p = (Returned ''Error: Rate limit exceeded. Wait a moment and retry.'', [req])"
  unfolding cc_list_project_comments_def using assms by (rule rate_limit_get)

lemma cc_list_users_rate_limit:
  assumes "API_TOKEN env \<noteq> []" and "answers_with env 429"
  shows "\<exists>req. cc_list_users env p = (Returned ''Error: Rate limit exceeded. Wait a moment and retry.'', [req])"
  unfolding cc_list_users_def using assms by (rule rate_limit_get)

lemma cc_list_tags_rate_limit:
  assumes "API_TOKEN env \<noteq> []" and "answers_with env 429"
  shows "\<exists>req. cc_list_tags env p = (Returned ''Error: Rate limit exceeded. Wait a moment and retry.'', [req])"
  unfolding cc_list_tags_def using assms by (rule rate_limit_get)

lemma cc_list_project_photos_rate_limit:
  assumes "API_TOKEN env \<noteq> []" and "answers_with env 429"
    and "photos_api_params (local_offset env) p = Inr ps"
  shows "\<exists>req. cc_list_project_photos env p = (Returned ''Error: Rate limit exceeded. Wait a moment and retry.'', [req])"
proof -
  have "cc_list_project_photos env p =
          (case api_get env (''/projects/'' @ ListProjectPhotosInput.project_id p @ ''/photos'') ps of
             (r, sent) \<Rightarrow> (try_except (exn_bind r (list_project_photos_text p)), sent))"
    unfolding cc_list_project_photos_def assms(3) by simp
  with rate_limit_get [OF assms(1,2)] show ?thesis by simp
qed

text \<open>
  C4, as stated: on a 404 for \<open>cc_get_project\<close> the result is the text of the code's table,
  \<open>Error: Resource not found. Check the ID is correct.\<close>, and not exactly
  \<open>resource not found\<close>; on a 429 for \<open>cc_list_users\<close> it is
  \<open>Error: Rate limit exceeded. Wait a moment and retry.\<close>, and not exactly
  \<open>rate limit exceeded, retry later\<close>.
\<close>

theorem classified_message_counterexample:
  "fst (cc_get_project
      \<lparr>API_TOKEN = ''token'', local_offset = 0, remote = (\<lambda>req. Response 404 ''{}'' (Inr (JObj [])))\<rparr>
      \<lparr>GetProjectInput.project_id = ''42''\<rparr>)
     = Returned ''Error: Resource not found. Check the ID is correct.''
   \<and> fst (cc_get_project
      \<lparr>API_TOKEN = ''token'', local_offset = 0, remote = (\<lambda>req. Response 404 ''{}'' (Inr (JObj [])))\<rparr>
      \<lparr>GetProjectInput.project_id = ''42''\<rparr>)
     \<noteq> Returned ''resource not found''
   \<and> fst (cc_list_users
      \<lparr>API_TOKEN = ''token'', local_offset = 0, remote = (\<lambda>req. Response 429 ''{}'' (Inr (JObj [])))\<rparr>
      \<lparr>ListUsersInput.page = 1, per_page = 100\<rparr>)
     = Returned ''Error: Rate limit exceeded. Wait a moment and retry.''
   \<and> fst (cc_list_users
      \<lparr>API_TOKEN = ''token'', local_offset = 0, remote = (\<lambda>req. Response 429 ''{}'' (Inr (JObj [])))\<rparr>
      \<lparr>ListUsersInput.page = 1, per_page = 100\<rparr>)
     \<noteq> Returned ''rate limit exceeded, retry later''"
proof -
  have a: "fst (cc_get_project
      \<lparr>API_TOKEN = ''token'', local_offset = 0, remote = (\<lambda>req. Response 404 ''{}'' (Inr (JObj [])))\<rparr>
      \<lparr>GetProjectInput.project_id = ''42''\<rparr>)
     = Returned ''Error: Resource not found. Check the ID is correct.''"
    by (simp add: cc_get_project_def api_get_def get_headers_def read_reply_def exn_bind_Inl
        try_except_def is_Exception_def handle_api_error_def)
  have b: "fst (cc_list_users
      \<lparr>API_TOKEN = ''token'', local_offset = 0, remote = (\<lambda>req. Response 429 ''{}'' (Inr (JObj [])))\<rparr>
      \<lparr>ListUsersInput.page = 1, per_page = 100\<rparr>)
     = Returned ''Error: Rate limit exceeded. Wait a moment and retry.''"
    by (simp add: cc_list_users_def api_get_def get_headers_def read_reply_def exn_bind_Inl
        try_except_def is_Exception_def handle_api_error_def)
  from a b show ?thesis by simp
qed

text \<open>
  C4, amended. With a credential configured, a remote HTTP 404 response on a get-project
  call yields exactly the result \<open>Error: Resource not found. Check the ID is correct.\<close>,
  and an HTTP 429 response on any of the six list operations yields exactly
  \<open>Error: Rate limit exceeded. Wait a moment and retry.\<close>, per the fixed table of
  \<open>_handle_api_error\<close> (for the photo listing: once its date filters have parsed, so that
  the request is sent). One request has been sent in each case.
\<close>

theorem classified_messages:
  assumes "API_TOKEN env \<noteq> []"
  shows "(answers_with env 404 \<longrightarrow>
           (\<exists>req. cc_get_project env p0 = (Returned ''Error: Resource not found. Check the ID is correct.'', [req])))
     \<and> (answers_with env 429 \<longrightarrow>
           (\<exists>req. cc_search_projects env p1 = (Returned ''Error: Rate limit exceeded. Wait a moment and retry.'', [req]))
         \<and> (photos_api_params (local_offset env) p2 = Inr ps \<longrightarrow>
              (\<exists>req. cc_list_project_photos env p2 = (Returned ''Error: Rate limit exceeded. Wait a moment and retry.'', [req])))
         \<and> (\<exists>req. cc_list_project_labels env p3 = (Returned ''Error: Rate limit exceeded. Wait a moment and retry.'', [req]))
         \<and> (\<exists>req. cc_list_project_comments env p4 = (Returned ''Error: Rate limit exceeded. Wait a moment and retry.'', [req]))
         \<and> (\<exists>req. cc_list_users env p5 = (Returned ''Error: Rate limit exceeded. Wait a moment and retry.'', [req]))
         \<and> (\<exists>req. cc_list_tags env p6 = (Returned ''Error: Rate limit exceeded. Wait a moment and retry.'', [req])))
     \<and> handle_api_error (HTTPStatusError 404 body) = ''Error: Resource not found. Check the ID is correct.''
     \<and> handle_api_error (HTTPStatusError 429 body) = ''Error: Rate limit exceeded. Wait a moment and retry.''"
proof -
  have table: "handle_api_error (HTTPStatusError 404 body) = ''Error: Resource not found. Check the ID is correct.''"
    "handle_api_error (HTTPStatusError 429 body) = ''Error: Rate limit exceeded. Wait a moment and retry.''"
    by (simp_all add: handle_api_error_def)
  show ?thesis
    using cc_get_project_not_found [OF assms, of p0]
      cc_search_projects_rate_limit [OF assms, of p1]
      cc_list_project_photos_rate_limit [OF assms, of p2 ps]
      cc_list_project_labels_rate_limit [OF assms, of p3]
      cc_list_project_comments_rate_limit [OF assms, of p4]
      cc_list_users_rate_limit [OF assms, of p5]
      cc_list_tags_rate_limit [OF assms, of p6]
      table
    by blast
qed

text \<open>A get-project call against a service that answers 404, and a tag listing and a photo
  listing against one that answers 429.\<close>

theorem classified_messages_witness:
  "fst (cc_get_project
      \<lparr>API_TOKEN = ''token'', local_offset = 0, remote = (\<lambda>req. Response 404 ''{}'' (Inr (JObj [])))\<rparr>
      \<lparr>GetProjectInput.project_id = ''42''\<rparr>)
     = Returned ''Error: Resource not found. Check the ID is correct.''
   \<and> fst (cc_list_tags
      \<lparr>API_TOKEN = ''token'', local_offset = 0, remote = (\<lambda>req. Response 429 ''slow down'' (Inl ''Expecting value''))\<rparr>
      \<lparr>ListTagsInput.page = 1, per_page = 100\<rparr>)
     = Returned ''Error: Rate limit exceeded. Wait a moment and retry.''
   \<and> fst (cc_list_project_photos
      \<lparr>API_TOKEN = ''token'', local_offset = 0, remote = (\<lambda>req. Response 429 ''slow down'' (Inl ''Expecting value''))\<rparr>
      \<lparr>ListProjectPhotosInput.project_id = ''42'', start_date = Some ''2025-01-15'', end_date = None,
         user_id = None, tag_id = None, page = 1, per_page = 25\<rparr>)
     = Returned ''Error: Rate limit exceeded. Wait a moment and retry.''"
proof -
  have t1: "API_TOKEN \<lparr>API_TOKEN = ''token'', local_offset = 0, remote = (\<lambda>req. Response 404 ''{}'' (Inr (JObj [])))\<rparr> \<noteq> []"
    and t2: "API_TOKEN \<lparr>API_TOKEN = ''token'', local_offset = 0, remote = (\<lambda>req. Response 429 ''slow down'' (Inl ''Expecting value''))\<rparr> \<noteq> []"
    by simp_all
  have a1: "answers_with \<lparr>API_TOKEN = ''token'', local_offset = 0, remote = (\<lambda>req. Response 404 ''{}'' (Inr (JObj [])))\<rparr> 404"
    and a2: "answers_with \<lparr>API_TOKEN = ''token'', local_offset = 0, remote = (\<lambda>req. Response 429 ''slow down'' (Inl ''Expecting value''))\<rparr> 429"
    by (simp_all add: answers_with_def)
  from classified_messages [OF t1, where ?p0.0 = "\<lparr>GetProjectInput.project_id = ''42''\<rparr>"] a1
  have "\<exists>req. cc_get_project
      \<lparr>API_TOKEN = ''token'', local_offset = 0, remote = (\<lambda>req. Response 404 ''{}'' (Inr (JObj [])))\<rparr>
      \<lparr>GetProjectInput.project_id = ''42''\<rparr>
     = (Returned ''Error: Resource not found. Check the ID is correct.'', [req])"
    by blast
  then have first: "fst (cc_get_project
      \<lparr>API_TOKEN = ''token'', local_offset = 0, remote = (\<lambda>req. Response 404 ''{}'' (Inr (JObj [])))\<rparr>
      \<lparr>GetProjectInput.project_id = ''42''\<rparr>)
     = Returned ''Error: Resource not found. Check the ID is correct.''"
    by auto
  from classified_messages [OF t2, where ?p6.0 = "\<lparr>ListTagsInput.page = 1, per_page = 100\<rparr>"] a2
  have "\<exists>req. cc_list_tags
      \<lparr>API_TOKEN = ''token'', local_offset = 0, remote = (\<lambda>req. Response 429 ''slow down'' (Inl ''Expecting value''))\<rparr>
      \<lparr>ListTagsInput.page = 1, per_page = 100\<rparr>
     = (Returned ''Error: Rate limit exceeded. Wait a moment and retry.'', [req])"
    by blast
  then have "fst (cc_list_tags
      \<lparr>API_TOKEN = ''token'', local_offset = 0, remote = (\<lambda>req. Response 429 ''slow down'' (Inl ''Expecting value''))\<rparr>
      \<lparr>ListTagsInput.page = 1, per_page = 100\<rparr>)
     = Returned ''Error: Rate limit exceeded. Wait a moment and retry.''"
    by auto
  note second = this
  have parse: "date_param 0 ''2025-01-15'' = Inr ''1736899200''"
    by code_simp
  have ps: "photos_api_params (local_offset \<lparr>API_TOKEN = ''token'', local_offset = 0, remote = (\<lambda>req. Response 429 ''slow down'' (Inl ''Expecting value''))\<rparr>)
      \<lparr>ListProjectPhotosInput.project_id = ''42'', start_date = Some ''2025-01-15'', end_date = None,
         user_id = None, tag_id = None, page = 1, per_page = 25\<rparr>
     = Inr [(''page'', JInt 1), (''per_page'', JInt 25), (''start_date'', JStr ''1736899200'')]"
    by (simp add: photos_api_params_def opt_param_def parse exn_bind_Inr)
  from classified_messages [OF t2, where ?p2.0 = "\<lparr>ListProjectPhotosInput.project_id = ''42'', start_date = Some ''2025-01-15'', end_date = None,
         user_id = None, tag_id = None, page = 1, per_page = 25\<rparr>"
      and ps = "[(''page'', JInt 1), (''per_page'', JInt 25), (''start_date'', JStr ''1736899200'')]"] a2 ps
  have "\<exists>req. cc_list_project_photos
      \<lparr>API_TOKEN = ''token'', local_offset = 0, remote = (\<lambda>req. Response 429 ''slow down'' (Inl ''Expecting value''))\<rparr>
      \<lparr>ListProjectPhotosInput.project_id = ''42'', start_date = Some ''2025-01-15'', end_date = None,
         user_id = None, tag_id = None, page = 1, per_page = 25\<rparr>
     = (Returned ''Error: Rate limit exceeded. Wait a moment and retry.'', [req])"
    by blast
  then have "fst (cc_list_project_photos
      \<lparr>API_TOKEN = ''token'', local_offset = 0, remote = (\<lambda>req. Response 429 ''slow down'' (Inl ''Expecting value''))\<rparr>
      \<lparr>ListProjectPhotosInput.project_id = ''42'', start_date = Some ''2025-01-15'', end_date = None,
         user_id = None, tag_id = None, page = 1, per_page = 25\<rparr>)
     = Returned ''Error: Rate limit exceeded. Wait a moment and retry.''"
    by auto
  with first second show ?thesis by simp
qed

subsection \<open>Faults stay inside the operations\<close>

text \<open>
  Every failure of the projection code is an instance of \<open>Exception\<close>: \<open>catchable\<close> holds
  of each helper, by the structure of its definition.
\<close>

named_theorems catchable_intros

lemma catchable_Inr [simp, catchable_intros]: "catchable (Inr v)"
  by (simp add: catchable_def)

lemma catchable_ValueError [simp, catchable_intros]: "catchable (Inl (ValueError m))"
  by (simp add: catchable_def is_Exception_def)

lemma catchable_OtherException [simp, catchable_intros]: "catchable (Inl (OtherException c m))"
  by (simp add: catchable_def is_Exception_def)

lemma catchable_HTTPStatusError [simp, catchable_intros]: "catchable (Inl (HTTPStatusError s b))"
  by (simp add: catchable_def is_Exception_def)

lemma catchable_bind [catchable_intros]:
  "catchable m \<Longrightarrow> (\<And>x. catchable (f x)) \<Longrightarrow> catchable (exn_bind m f)"
  by (cases m) (simp_all add: exn_bind_def catchable_def)

lemma catchable_map [catchable_intros]:
  "(\<And>x. catchable (f x)) \<Longrightarrow> catchable (exn_map f xs)"
proof (induction xs)
  case Nil
  show ?case by simp
next
  case (Cons x xs)
  from Cons.prems have "catchable (f x)" .
  moreover from Cons have "catchable (exn_map f xs)" by simp
  ultimately show ?case
    by (auto simp: catchable_def split: sum.splits)
qed

lemma catchable_if [catchable_intros]:
  "(c \<Longrightarrow> catchable a) \<Longrightarrow> (\<not> c \<Longrightarrow> catchable b) \<Longrightarrow> catchable (if c then a else b)"
  by simp

lemma catchable_py_get [catchable_intros]: "catchable (py_get v k d)"
  by (cases v) (simp_all add: attribute_error_def)

lemma catchable_py_item [catchable_intros]: "catchable (py_item v k)"
  by (cases v) (simp_all split: option.split)

lemma catchable_py_len [catchable_intros]: "catchable (py_len v)"
  by (cases v) simp_all

lemma catchable_py_iter [catchable_intros]: "catchable (py_iter v)"
  by (cases v) simp_all

lemma catchable_py_first [catchable_intros]: "catchable (py_first v)"
  by (induction v rule: py_first.induct) simp_all

lemma catchable_py_slice [catchable_intros]: "catchable (py_slice n v)"
  by (cases v) simp_all

lemma catchable_join_items: "catchable (join_items i vs)"
  by (induction i vs rule: join_items.induct) (auto simp: catchable_def is_Exception_def split: sum.splits)

lemma catchable_py_join [catchable_intros]: "catchable (py_join sep vs)"
  using catchable_join_items [of 0 vs]
  by (auto simp: py_join_def catchable_def split: sum.splits)

lemma catchable_utc_strftime [catchable_intros]: "catchable (utc_strftime ts)"
  by (simp add: utc_strftime_def Let_def)

lemma catchable_unix_to_str [catchable_intros]: "catchable (unix_to_str ts)"
  by (cases ts) (simp_all add: unix_to_str_def catchable_utc_strftime)

lemma catchable_format_address [catchable_intros]: "catchable (format_address addr)"
  unfolding format_address_def by (intro catchable_intros)

lemma catchable_entry_url [catchable_intros]: "catchable (entry_url uri)"
  unfolding entry_url_def by (intro catchable_intros)

lemma catchable_find_size [catchable_intros]: "catchable (find_size us sz)"
  by (induction us) (auto intro!: catchable_intros)

lemma catchable_get_photo_url [catchable_intros]: "catchable (get_photo_url uris sz)"
  unfolding get_photo_url_def by (auto intro!: catchable_intros split: option.split)

lemma catchable_notepad_line [catchable_intros]: "catchable (notepad_line v)"
  unfolding notepad_line_def by (intro catchable_intros)

lemma catchable_contact_line [catchable_intros]: "catchable (contact_line v)"
  unfolding contact_line_def by (intro catchable_intros)

lemma catchable_integration_str [catchable_intros]: "catchable (integration_str v)"
  unfolding integration_str_def by (intro catchable_intros)

lemma catchable_integrations_line [catchable_intros]: "catchable (integrations_line v)"
  unfolding integrations_line_def by (intro catchable_intros)

lemma catchable_format_project_summary [catchable_intros]: "catchable (format_project_summary v)"
  unfolding format_project_summary_def by (intro catchable_intros)

lemma catchable_format_photo_summary [catchable_intros]: "catchable (format_photo_summary v)"
  unfolding format_photo_summary_def by (intro catchable_intros)

lemma catchable_search_projects_text [catchable_intros]: "catchable (search_projects_text p v)"
  unfolding search_projects_text_def by (intro catchable_intros)

lemma catchable_list_project_photos_text [catchable_intros]: "catchable (list_project_photos_text p v)"
  unfolding list_project_photos_text_def by (intro catchable_intros)

lemma catchable_location_line [catchable_intros]: "catchable (location_line v)"
  unfolding location_line_def by (intro catchable_intros)

lemma catchable_location_lines [catchable_intros]: "catchable (location_lines v)"
  unfolding location_lines_def by (intro catchable_intros)

lemma catchable_size_line [catchable_intros]: "catchable (size_line v)"
  unfolding size_line_def by (intro catchable_intros)

lemma catchable_sizes_lines [catchable_intros]: "catchable (sizes_lines v)"
  unfolding sizes_lines_def by (intro catchable_intros)

lemma catchable_get_photo_text [catchable_intros]: "catchable (get_photo_text v)"
  unfolding get_photo_text_def by (intro catchable_intros)

lemma catchable_tag_line [catchable_intros]: "catchable (tag_line v)"
  unfolding tag_line_def by (intro catchable_intros)

lemma catchable_list_project_labels_text [catchable_intros]: "catchable (list_project_labels_text p v)"
  unfolding list_project_labels_text_def by (intro catchable_intros)

lemma catchable_comment_line [catchable_intros]: "catchable (comment_line v)"
  unfolding comment_line_def by (intro catchable_intros)

lemma catchable_list_project_comments_text [catchable_intros]: "catchable (list_project_comments_text p v)"
  unfolding list_project_comments_text_def by (intro catchable_intros)

lemma catchable_user_line [catchable_intros]: "catchable (user_line v)"
  unfolding user_line_def by (intro catchable_intros)

lemma catchable_list_users_text [catchable_intros]: "catchable (list_users_text v)"
  unfolding list_users_text_def by (intro catchable_intros)

lemma catchable_list_tags_text [catchable_intros]: "catchable (list_tags_text v)"
  unfolding list_tags_text_def by (intro catchable_intros)

lemma catchable_add_project_comment_text [catchable_intros]: "catchable (add_project_comment_text p v)"
  unfolding add_project_comment_text_def by (intro catchable_intros)

lemma catchable_add_photo_tags_text [catchable_intros]: "catchable (add_photo_tags_text p v)"
proof (cases v)
  case (JList xs)
  then show ?thesis
    unfolding add_photo_tags_text_def
    by (cases xs) (auto simp del: exn_map.simps intro!: catchable_intros)
qed (simp_all add: add_photo_tags_text_def exn_bind_def)

lemma catchable_add_photo_comment_text [catchable_intros]: "catchable (add_photo_comment_text p v)"
  unfolding add_photo_comment_text_def by (intro catchable_intros)

lemma catchable_photos_api_params: "catchable (photos_api_params off p)"
  using photos_api_params_ValueError [of off p]
  by (cases "photos_api_params off p") (auto simp: catchable_def is_Exception_def)

text \<open>The transport: a missing token, a status outside 2xx and a body that is not JSON are
  instances of \<open>Exception\<close>; a fault of the network is one by assumption.\<close>

lemma catchable_read_reply:
  "faults_are_Exceptions env \<Longrightarrow> catchable (read_reply (remote env req))"
  unfolding faults_are_Exceptions_def read_reply_def
  by (cases "remote env req") (auto simp: catchable_def is_Exception_def split: sum.splits dest: spec [of _ req])

lemma catchable_api_get: "faults_are_Exceptions env \<Longrightarrow> catchable (fst (api_get env path ps))"
  by (auto simp: api_get_def get_headers_def Let_def catchable_read_reply)

lemma catchable_api_post: "faults_are_Exceptions env \<Longrightarrow> catchable (fst (api_post env path d))"
  by (auto simp: api_post_def get_headers_def Let_def catchable_read_reply)

lemma catchable_api_put: "faults_are_Exceptions env \<Longrightarrow> catchable (fst (api_put env path d))"
  by (auto simp: api_put_def get_headers_def Let_def catchable_read_reply)

lemma try_except_catchable: "catchable r \<Longrightarrow> \<exists>s. try_except r = Returned s"
  by (cases r) (simp_all add: try_except_def catchable_def)

lemma returns_get:
  assumes "faults_are_Exceptions env" and "\<And>v. catchable (f v)"
  shows "\<exists>s. fst (case api_get env path ps of (r, sent) \<Rightarrow> (try_except (exn_bind r f), sent)) = Returned s"
proof -
  have "catchable (exn_bind (fst (api_get env path ps)) f)"
    using assms by (intro catchable_bind catchable_api_get)
  then show ?thesis
    by (cases "api_get env path ps") (simp add: try_except_catchable)
qed

lemma returns_post:
  assumes "faults_are_Exceptions env" and "\<And>v. catchable (f v)"
  shows "\<exists>s. fst (case api_post env path d of (r, sent) \<Rightarrow> (try_except (exn_bind r f), sent)) = Returned s"
proof -
  have "catchable (exn_bind (fst (api_post env path d)) f)"
    using assms by (intro catchable_bind catchable_api_post)
  then show ?thesis
    by (cases "api_post env path d") (simp add: try_except_catchable)
qed

lemma returns_put:
  assumes "faults_are_Exceptions env" and "\<And>v. catchable (f v)"
  shows "\<exists>s. fst (case api_put env path d of (r, sent) \<Rightarrow> (try_except (exn_bind r f), sent)) = Returned s"
proof -
  have "catchable (exn_bind (fst (api_put env path d)) f)"
    using assms by (intro catchable_bind catchable_api_put)
  then show ?thesis
    by (cases "api_put env path d") (simp add: try_except_catchable)
qed

lemma cc_search_projects_returns:
  "faults_are_Exceptions env \<Longrightarrow> \<exists>s. fst (cc_search_projects env p) = Returned s"
  unfolding cc_search_projects_def by (rule returns_get) (auto intro: catchable_intros)

lemma cc_get_project_returns:
  "faults_are_Exceptions env \<Longrightarrow> \<exists>s. fst (cc_get_project env p) = Returned s"
  unfolding cc_get_project_def by (rule returns_get) (auto intro: catchable_intros)

lemma cc_get_photo_returns:
  "faults_are_Exceptions env \<Longrightarrow> \<exists>s. fst (cc_get_photo env p) = Returned s"
  unfolding cc_get_photo_def by (rule returns_get) (auto intro: catchable_intros)

lemma cc_list_project_labels_returns:
  "faults_are_Exceptions env \<Longrightarrow> \<exists>s. fst (cc_list_project_labels env p) = Returned s"
  unfolding cc_list_project_labels_def by (rule returns_get) (auto intro: catchable_intros)

lemma cc_list_project_comments_returns:
  "faults_are_Exceptions env \<Longrightarrow> \<exists>s. fst (cc_list_project_comments env p) = Returned s"
  unfolding cc_list_project_comments_def by (rule returns_get) (auto intro: catchable_intros)

lemma cc_list_users_returns:
  "faults_are_Exceptions env \<Longrightarrow> \<exists>s. fst (cc_list_users env p) = Returned s"
  unfolding cc_list_users_def by (rule returns_get) (auto intro: catchable_intros)

lemma cc_list_tags_returns:
  "faults_are_Exceptions env \<Longrightarrow> \<exists>s. fst (cc_list_tags env p) = Returned s"
  unfolding cc_list_tags_def by (rule returns_get) (auto intro: catchable_intros)

lemma cc_add_project_comment_returns:
  "faults_are_Exceptions env \<Longrightarrow> \<exists>s. fst (cc_add_project_comment env p) = Returned s"
  unfolding cc_add_project_comment_def by (rule returns_post) (auto intro: catchable_intros)

lemma cc_add_photo_tags_returns:
  "faults_are_Exceptions env \<Longrightarrow> \<exists>s. fst (cc_add_photo_tags env p) = Returned s"
  unfolding cc_add_photo_tags_def by (rule returns_post) (auto intro: catchable_intros)

lemma cc_add_project_labels_returns:
  "faults_are_Exceptions env \<Longrightarrow> \<exists>s. fst (cc_add_project_labels env p) = Returned s"
  unfolding cc_add_project_labels_def by (rule returns_post) (auto intro: catchable_intros)

lemma cc_update_project_notepad_returns:
  "faults_are_Exceptions env \<Longrightarrow> \<exists>s. fst (cc_update_project_notepad env p) = Returned s"
  unfolding cc_update_project_notepad_def by (rule returns_put) (auto intro: catchable_intros)

lemma cc_add_photo_comment_returns:
  "faults_are_Exceptions env \<Longrightarrow> \<exists>s. fst (cc_add_photo_comment env p) = Returned s"
  unfolding cc_add_photo_comment_def by (rule returns_post) (auto intro: catchable_intros)

lemma cc_list_project_photos_returns:
  assumes "faults_are_Exceptions env"
  shows "\<exists>s. fst (cc_list_project_photos env p) = Returned s"
proof (cases "photos_api_params (local_offset env) p")
  case (Inl e)
  with catchable_photos_api_params [of "local_offset env" p]
  have "\<exists>s. try_except (Inl e :: exn + string) = Returned s"
    by (intro try_except_catchable) (simp add: catchable_def)
  with Inl show ?thesis
    by (simp add: cc_list_project_photos_def)
next
  case (Inr ps)
  have "cc_list_project_photos env p =
          (case api_get env (''/projects/'' @ ListProjectPhotosInput.project_id p @ ''/photos'') ps of
             (r, sent) \<Rightarrow> (try_except (exn_bind r (list_project_photos_text p)), sent))"
    unfolding cc_list_project_photos_def Inr by simp
  moreover have "\<exists>s. fst (case api_get env (''/projects/'' @ ListProjectPhotosInput.project_id p @ ''/photos'') ps of
             (r, sent) \<Rightarrow> (try_except (exn_bind r (list_project_photos_text p)), sent)) = Returned s"
    using assms by (rule returns_get) (rule catchable_list_project_photos_text)
  ultimately show ?thesis by simp
qed

text \<open>
  What the assumption on the network leaves out: an exception that is not an instance of
  \<open>Exception\<close>, such as the cancellation of the task during the request, is not caught by
  \<open>except Exception\<close> and leaves the operation.
\<close>

lemma cancellation_leaves_the_operation:
  "fst (cc_get_project
      \<lparr>API_TOKEN = ''token'', local_offset = 0,
         remote = (\<lambda>req. Fault (BaseExceptionOnly ''CancelledError'' []))\<rparr>
      \<lparr>GetProjectInput.project_id = ''42''\<rparr>)
     = Raised (BaseExceptionOnly ''CancelledError'' [])"
  by (simp add: cc_get_project_def api_get_def get_headers_def read_reply_def exn_bind_def
      try_except_def is_Exception_def)



subsection \<open>The hint for more results\<close>

lemma exn_map_length: "exn_map f xs = Inr ys \<Longrightarrow> length ys = length xs"
  by (induction xs arbitrary: ys) (auto split: sum.splits)

lemma str_join_snoc: "xs \<noteq> [] \<Longrightarrow> str_join sep (xs @ [x]) = str_join sep xs @ sep @ x"
  by (induction sep xs rule: str_join.induct) auto

lemma ends_with_append: "ends_with (a @ s) s"
  by (simp add: ends_with_def)

lemma ends_with_last:
  assumes "ends_with t s" and "s \<noteq> []"
  shows "last t = last s"
proof -
  from assms(1) have "t = take (length t - length s) t @ s"
    by (metis append_take_drop_id ends_with_def)
  then show ?thesis using assms(2) by (metis last_appendR)
qed

lemma spaced_snoc: "spaced (ss @ [s]) = spaced ss @ [s, []]"
  by (simp add: spaced_def)

text \<open>Without the hint, a list result ends with the empty line of its last item.\<close>

lemma last_join_spaced:
  assumes "sums \<noteq> []"
  shows "last (str_join nl (header # spaced sums)) = CHR 0x0A"
proof -
  from assms obtain ss s where "sums = ss @ [s]"
    by (metis rev_exhaust)
  then have "header # spaced sums = (header # spaced ss @ [s]) @ [[]]"
    by (simp add: spaced_snoc)
  then have "str_join nl (header # spaced sums) = str_join nl (header # spaced ss @ [s]) @ nl @ []"
    using str_join_snoc [of "header # spaced ss @ [s]" nl "[]"] by simp
  then show ?thesis by (simp add: nl_def)
qed

lemma hint_iff:
  assumes "sums \<noteq> []" and "last hint = CHR ''_''" and "hint \<noteq> []"
  shows "ends_with (str_join nl ([header] @ spaced sums @ (if full then [hint] else []))) (nl @ hint) \<longleftrightarrow> full"
proof (cases full)
  case True
  have "str_join nl ((header # spaced sums) @ [hint]) = str_join nl (header # spaced sums) @ nl @ hint"
    by (rule str_join_snoc) simp
  with True show ?thesis
    by (simp add: ends_with_append)
next
  case False
  have "\<not> ends_with (str_join nl (header # spaced sums)) (nl @ hint)"
  proof
    assume "ends_with (str_join nl (header # spaced sums)) (nl @ hint)"
    then have "last (str_join nl (header # spaced sums)) = last (nl @ hint)"
      by (rule ends_with_last) (simp add: nl_def)
    with assms show False
      by (simp add: last_join_spaced)
  qed
  with False show ?thesis by simp
qed

lemma search_projects_text_hint:
  assumes "1 \<le> SearchProjectsInput.per_page p" and "search_projects_text p (JList items) = Inr t"
  shows "ends_with t (nl @ more_projects_hint (SearchProjectsInput.page p))
           \<longleftrightarrow> int (length items) = SearchProjectsInput.per_page p"
proof (cases items)
  case Nil
  with assms(2) have "last t = CHR ''.''"
    by (auto simp: search_projects_text_def)
  moreover have "last (nl @ more_projects_hint (SearchProjectsInput.page p)) = CHR ''_''"
    by (simp add: more_projects_hint_def)
  ultimately have "\<not> ends_with t (nl @ more_projects_hint (SearchProjectsInput.page p))"
    using ends_with_last [of t "nl @ more_projects_hint (SearchProjectsInput.page p)"]
    by (auto simp: nl_def)
  with Nil assms(1) show ?thesis by simp
next
  case (Cons x xs)
  with assms(2) obtain sums where
    sums: "exn_map format_project_summary items = Inr sums" and
    t: "t = str_join nl ([''**Found '' @ str_nat (length items) @ '' project(s) matching '' @ sq
                   @ SearchProjectsInput.query p @ sq @ ''** (page ''
                   @ str_int (SearchProjectsInput.page p) @ ''):'' @ nl]
                @ spaced sums
                @ (if int (length items) = SearchProjectsInput.per_page p
                   then [more_projects_hint (SearchProjectsInput.page p)] else []))"
    by (auto simp: search_projects_text_def exn_bind_def split: sum.splits simp del: exn_map.simps)
  from sums Cons have "sums \<noteq> []"
    using exn_map_length [of format_project_summary items sums] by auto
  then show ?thesis
    unfolding t by (rule hint_iff) (simp_all add: more_projects_hint_def)
qed

lemma list_project_photos_text_hint:
  assumes "1 \<le> ListProjectPhotosInput.per_page p" and "list_project_photos_text p (JList items) = Inr t"
  shows "ends_with t (nl @ more_photos_hint (ListProjectPhotosInput.page p))
           \<longleftrightarrow> int (length items) = ListProjectPhotosInput.per_page p"
proof (cases items)
  case Nil
  with assms(2) have "last t = CHR ''.''"
    by (auto simp: list_project_photos_text_def)
  moreover have "last (nl @ more_photos_hint (ListProjectPhotosInput.page p)) = CHR ''_''"
    by (simp add: more_photos_hint_def)
  ultimately have "\<not> ends_with t (nl @ more_photos_hint (ListProjectPhotosInput.page p))"
    using ends_with_last [of t "nl @ more_photos_hint (ListProjectPhotosInput.page p)"]
    by (auto simp: nl_def)
  with Nil assms(1) show ?thesis by simp
next
  case (Cons x xs)
  with assms(2) obtain sums where
    sums: "exn_map format_photo_summary items = Inr sums" and
    t: "t = str_join nl ([''**'' @ str_nat (length items) @ '' photo(s)** for project ''
                   @ ListProjectPhotosInput.project_id p @ '' (page ''
                   @ str_int (ListProjectPhotosInput.page p) @ ''):'' @ nl]
                @ spaced sums
                @ (if int (length items) = ListProjectPhotosInput.per_page p
                   then [more_photos_hint (ListProjectPhotosInput.page p)] else []))"
    by (auto simp: list_project_photos_text_def exn_bind_def split: sum.splits simp del: exn_map.simps)
  from sums Cons have "sums \<noteq> []"
    using exn_map_length [of format_photo_summary items sums] by auto
  then show ?thesis
    unfolding t by (rule hint_iff) (simp_all add: more_photos_hint_def)
qed

text \<open>An operation against a service that returns the list \<open>items\<close>.\<close>

lemma list_get:
  assumes "API_TOKEN env \<noteq> []" and "returns_list env items"
  shows "fst (case api_get env path ps of (r, sent) \<Rightarrow> (try_except (exn_bind r f), sent))
           = try_except (f (JList items))"
proof -
  obtain h where h: "get_headers (API_TOKEN env) = Inr h"
    using assms(1) by (simp add: get_headers_def)
  let ?req = "\<lparr>http_method = GET, url = BASE_URL @ path, headers = h, params = ps, json_body = None\<rparr>"
  obtain body where "remote env ?req = Response 200 body (Inr (JList items))"
    using assms(2) unfolding returns_list_def by blast
  then have "read_reply (remote env ?req) = Inr (JList items)"
    by (simp add: read_reply_def)
  then show ?thesis
    by (simp add: api_get_def h exn_bind_Inr)
qed

lemma cc_search_projects_list:
  assumes "API_TOKEN env \<noteq> []" and "returns_list env items"
  shows "fst (cc_search_projects env p) = try_except (search_projects_text p (JList items))"
  unfolding cc_search_projects_def using assms by (rule list_get)

lemma cc_list_project_photos_list:
  assumes "API_TOKEN env \<noteq> []" and "returns_list env items"
    and "photos_api_params (local_offset env) p = Inr ps"
  shows "fst (cc_list_project_photos env p) = try_except (list_project_photos_text p (JList items))"
proof -
  have "cc_list_project_photos env p =
          (case api_get env (''/projects/'' @ ListProjectPhotosInput.project_id p @ ''/photos'') ps of
             (r, sent) \<Rightarrow> (try_except (exn_bind r (list_project_photos_text p)), sent))"
    unfolding cc_list_project_photos_def assms(3) by simp
  with list_get [OF assms(1,2)] show ?thesis by simp
qed

lemma cc_list_project_comments_list:
  assumes "API_TOKEN env \<noteq> []" and "returns_list env items"
  shows "fst (cc_list_project_comments env p) = try_except (list_project_comments_text p (JList items))"
  unfolding cc_list_project_comments_def using assms by (rule list_get)

lemma cc_list_users_list:
  assumes "API_TOKEN env \<noteq> []" and "returns_list env items"
  shows "fst (cc_list_users env p) = try_except (list_users_text (JList items))"
  unfolding cc_list_users_def using assms by (rule list_get)

lemma cc_list_tags_list:
  assumes "API_TOKEN env \<noteq> []" and "returns_list env items"
  shows "fst (cc_list_tags env p) = try_except (list_tags_text (JList items))"
  unfolding cc_list_tags_def using assms by (rule list_get)

lemma list_project_comments_text_per_page:
  "list_project_comments_text (p\<lparr>ListProjectCommentsInput.per_page := n\<rparr>) data = list_project_comments_text p data"
  by (simp add: list_project_comments_text_def)




end
